theory Spec2Isabelle
  imports Main
begin

section \<open>Values, errors and outcomes\<close>

text \<open>
  The package is one Go file, \<^verbatim>\<open>errors.go\<close>. Its functions inspect values of the
  empty interface (\<^verbatim>\<open>any\<close>), call the \<^verbatim>\<open>Error\<close> method of error values, panic and
  recover. The embedding keeps these as data:
  \<^item> a dynamic type is described by what \<^verbatim>\<open>reflect\<close> and the runtime print of it;
  \<^item> an error value is one of the shapes the file can meet; the \<^verbatim>\<open>error\<close> interface,
    which may be nil, is \<open>error option\<close>;
  \<^item> a value of type \<^verbatim>\<open>any\<close> is \<open>VNil\<close> or a value with a dynamic type;
  \<^item> a call either returns or panics; the payload of \<open>Panic\<close> is the value a deferred
    \<^verbatim>\<open>recover()\<close> obtains.
\<close>

datatype go_type =
    Named string string
  | Unnamed string

text \<open>
  \<open>Named pkg name\<close> is a defined type (\<open>pkg\<close> empty for a predeclared type such as
  \<^verbatim>\<open>int\<close>); \<open>Unnamed lit\<close> is a type literal such as \<^verbatim>\<open>[]int\<close> or \<^verbatim>\<open>*T\<close>.
  \<^verbatim>\<open>reflect.Type.Name()\<close> is empty for an unnamed type.
\<close>

fun type_Name :: "go_type \<Rightarrow> string" where
  "type_Name (Named pkg name) = name"
| "type_Name (Unnamed lit) = []"

fun type_String :: "go_type \<Rightarrow> string" where
  "type_String (Named pkg name) = (if pkg = [] then name else pkg @ ''.'' @ name)"
| "type_String (Unnamed lit) = lit"

datatype error =
    ErrorString string
  | OtherError go_type string
  | EWrap wrapErrPrefixMsg
and wrapErrPrefixMsg =
    WrapErrPrefixMsg (Base: error) (Attach: string)

text \<open>
  \<open>ErrorString s\<close> is the value of \<^verbatim>\<open>errors.New(s)\<close>; \<open>OtherError t s\<close> is an error of
  any other dynamic type \<open>t\<close> whose \<^verbatim>\<open>Error()\<close> returns \<open>s\<close>; \<open>EWrap w\<close> is a
  \<^verbatim>\<open>wrapErrPrefixMsg\<close> struct seen through the \<^verbatim>\<open>error\<close> interface. The struct type is
  unexported and its only construction site, \<^verbatim>\<open>mustE\<close>, stores a non-nil \<^verbatim>\<open>err\<close>, so
  \<open>Base\<close> is an error and not an optional one.
\<close>

fun Error :: "error \<Rightarrow> string"
  and wrapErrPrefixMsg_Error :: "wrapErrPrefixMsg \<Rightarrow> string" where
  "Error (ErrorString s) = s"
| "Error (OtherError t s) = s"
| "Error (EWrap w) = wrapErrPrefixMsg_Error w"
| "wrapErrPrefixMsg_Error (WrapErrPrefixMsg base attach) =
     (if attach \<noteq> [] then attach @ '': '' @ Error base else Error base)"

definition wrapErrPrefixMsg_String :: "wrapErrPrefixMsg \<Rightarrow> string" where
  "wrapErrPrefixMsg_String err = wrapErrPrefixMsg_Error err"

definition Unwrap :: "wrapErrPrefixMsg \<Rightarrow> error" where
  "Unwrap err = Base err"

fun error_type :: "error \<Rightarrow> go_type" where
  "error_type (ErrorString s) = Unnamed ''*errors.errorString''"
| "error_type (OtherError t s) = t"
| "error_type (EWrap w) = Named ''lo'' ''wrapErrPrefixMsg''"

datatype any =
    VNil
  | VBool bool
  | VString string
  | VInt int
  | VError error
  | VOther go_type

text \<open>
  \<open>VOther t\<close> stands for a value whose dynamic type \<open>t\<close> is none of \<^verbatim>\<open>bool\<close>,
  \<^verbatim>\<open>string\<close>, \<^verbatim>\<open>int\<close> and implements no \<^verbatim>\<open>Error\<close> method. The file never looks
  inside such a value. \<open>VInt\<close> carries a Go \<^verbatim>\<open>int\<close>; the file does no arithmetic on
  it, so no wrap-around is involved.
\<close>

fun any_of_error :: "error option \<Rightarrow> any" where
  "any_of_error None = VNil"
| "any_of_error (Some e) = VError e"

fun dyn_type :: "any \<Rightarrow> go_type option" where
  "dyn_type VNil = None"
| "dyn_type (VBool b) = Some (Named [] ''bool'')"
| "dyn_type (VString s) = Some (Named [] ''string'')"
| "dyn_type (VInt i) = Some (Named [] ''int'')"
| "dyn_type (VError e) = Some (error_type e)"
| "dyn_type (VOther t) = Some t"

datatype 'a outcome = Return 'a | Panic any

text \<open>
  A Go function of this file is a state transformer that also yields an outcome. The
  state \<open>'s\<close> is whatever the callbacks and the hook may touch; the file itself has no
  state but the locals captured by the closures of \<^verbatim>\<open>TryOr1\<close> to \<^verbatim>\<open>TryOr6\<close>.
\<close>

type_synonym ('s, 'a) go = "'s \<Rightarrow> 'a outcome \<times> 's"

definition go_return :: "'a \<Rightarrow> ('s, 'a) go" where
  "go_return v s = (Return v, s)"

definition go_panic :: "any \<Rightarrow> ('s, 'a) go" where
  "go_panic p s = (Panic p, s)"

definition go_lift :: "'a outcome \<Rightarrow> ('s, 'a) go" where
  "go_lift r s = (r, s)"

definition go_bind :: "('s, 'a) go \<Rightarrow> ('a \<Rightarrow> ('s, 'b) go) \<Rightarrow> ('s, 'b) go" where
  "go_bind m f s =
     (case m s of
        (Return v, s') \<Rightarrow> f v s'
      | (Panic p, s') \<Rightarrow> (Panic p, s'))"

text \<open>
  The two runtime panics the file can raise by itself: a failed type assertion
  \<^verbatim>\<open>x.(string)\<close> and a method call on the nil \<^verbatim>\<open>reflect.Type\<close>.
\<close>

definition quote :: string where
  "quote = [CHR 0x27]"

fun dyn_type_string :: "any \<Rightarrow> string" where
  "dyn_type_string v = (case dyn_type v of None \<Rightarrow> ''nil'' | Some t \<Rightarrow> type_String t)"

definition TypeAssertionError :: "any \<Rightarrow> any" where
  "TypeAssertionError v =
     VError (OtherError (Unnamed ''*runtime.TypeAssertionError'')
       (''interface conversion: interface {} is '' @ dyn_type_string v @ '', not string''))"

definition NilDereference :: any where
  "NilDereference =
     VError (OtherError (Named ''runtime'' ''errorString'')
       ''runtime error: invalid memory address or nil pointer dereference'')"

fun assert_string :: "any \<Rightarrow> string outcome" where
  "assert_string (VString s) = Return s"
| "assert_string v = Panic (TypeAssertionError v)"

fun reflect_TypeOf_Name :: "any \<Rightarrow> string outcome" where
  "reflect_TypeOf_Name v =
     (case dyn_type v of None \<Rightarrow> Panic NilDereference | Some t \<Rightarrow> Return (type_Name t))"

section \<open>The hooks and the message composer\<close>

text \<open>
  \<^verbatim>\<open>var LoPanic = func(e any) { panic(e) }\<close> is a package variable that a program may
  replace. Every function that calls it takes the hook in force as its first
  argument; \<open>LoPanic_default\<close> is the initial value. A non-nil payload passed to
  \<^verbatim>\<open>panic\<close> reaches \<^verbatim>\<open>recover()\<close> unchanged, and the Must family hands the hook nothing
  but non-nil payloads (strings and wrappers). Go replaces a nil argument of \<^verbatim>\<open>panic\<close>
  by a \<^verbatim>\<open>*runtime.PanicNilError\<close>, so that \<^verbatim>\<open>recover()\<close> never yields nil in a panicking
  goroutine; no statement below applies the hook to nil.
\<close>

definition LoPanic_default :: "any \<Rightarrow> ('s, unit) go" where
  "LoPanic_default e = go_panic e"

text \<open>
  \<^verbatim>\<open>fmt.Sprintf\<close> belongs to the Go standard library, not to this repository: the
  composer takes the formatter as a parameter \<open>sprintf\<close>.
\<close>

definition messageFromMsgAndArgs ::
  "(string \<Rightarrow> any list \<Rightarrow> string) \<Rightarrow> any list \<Rightarrow> string outcome" where
  "messageFromMsgAndArgs sprintf msgAndArgs =
     (if length msgAndArgs = 1 then
        (case msgAndArgs ! 0 of
           VString msgAsStr \<Rightarrow> Return msgAsStr
         | _ \<Rightarrow> Return (sprintf ''%+v'' [msgAndArgs ! 0]))
      else if length msgAndArgs > 1 then
        (case assert_string (msgAndArgs ! 0) of
           Return template \<Rightarrow> Return (sprintf template (drop 1 msgAndArgs))
         | Panic p \<Rightarrow> Panic p)
      else Return [])"

text \<open>
  For concrete inputs the formatter is instantiated with \<open>Sprintf\<close>, a model of
  \<^verbatim>\<open>fmt.Sprintf\<close> on a fragment: literal text, \<^verbatim>\<open>%%\<close>, \<^verbatim>\<open>%v\<close> and \<^verbatim>\<open>%+v\<close> on nil,
  booleans, strings, ints and errors, \<^verbatim>\<open>%d\<close> on ints, \<^verbatim>\<open>%s\<close> on strings and errors,
  with exactly as many operands as directives. \<open>Sprintf_fragment\<close> is \<open>None\<close> outside
  the fragment, where \<open>Sprintf\<close> returns a fixed marker that is not Go's output. The
  general theorems quantify over the formatter and use no property of it.
\<close>

definition digit_char :: "nat \<Rightarrow> char" where
  "digit_char n = ''0123456789'' ! (n mod 10)"

fun show_nat :: "nat \<Rightarrow> string" where
  "show_nat n = (if n < 10 then [digit_char n] else show_nat (n div 10) @ [digit_char n])"

definition show_int :: "int \<Rightarrow> string" where
  "show_int i = (if i < 0 then CHR ''-'' # show_nat (nat (- i)) else show_nat (nat i))"

fun format_v :: "any \<Rightarrow> string option" where
  "format_v VNil = Some ''<nil>''"
| "format_v (VBool b) = Some (if b then ''true'' else ''false'')"
| "format_v (VString s) = Some s"
| "format_v (VInt i) = Some (show_int i)"
| "format_v (VError e) = Some (Error e)"
| "format_v (VOther t) = None"

fun format_d :: "any \<Rightarrow> string option" where
  "format_d (VInt i) = Some (show_int i)"
| "format_d v = None"

fun format_s :: "any \<Rightarrow> string option" where
  "format_s (VString s) = Some s"
| "format_s (VError e) = Some (Error e)"
| "format_s v = None"

definition format_verb :: "char \<Rightarrow> any \<Rightarrow> string option" where
  "format_verb c v =
     (if c = CHR ''v'' then format_v v
      else if c = CHR ''d'' then format_d v
      else if c = CHR ''s'' then format_s v
      else None)"

definition append_option :: "string option \<Rightarrow> string option \<Rightarrow> string option" where
  "append_option a b =
     (case a of None \<Rightarrow> None
      | Some x \<Rightarrow> (case b of None \<Rightarrow> None | Some y \<Rightarrow> Some (x @ y)))"

fun Sprintf_fragment :: "string \<Rightarrow> any list \<Rightarrow> string option" where
  "Sprintf_fragment [] a = (if a = [] then Some [] else None)"
| "Sprintf_fragment (c # cs) a =
     (if c \<noteq> CHR ''%'' then append_option (Some [c]) (Sprintf_fragment cs a)
      else (case cs of
              [] \<Rightarrow> None
            | d # ds \<Rightarrow>
                if d = CHR ''%'' then append_option (Some ''%'') (Sprintf_fragment ds a)
                else if d = CHR ''+'' then
                  (case ds of
                     [] \<Rightarrow> None
                   | e # es \<Rightarrow>
                       if e = CHR ''v'' then
                         (case a of
                            [] \<Rightarrow> None
                          | v # vs \<Rightarrow> append_option (format_v v) (Sprintf_fragment es vs))
                       else None)
                else
                  (case a of
                     [] \<Rightarrow> None
                   | v # vs \<Rightarrow> append_option (format_verb d v) (Sprintf_fragment ds vs))))"

definition Sprintf :: "string \<Rightarrow> any list \<Rightarrow> string" where
  "Sprintf format a =
     (case Sprintf_fragment format a of Some r \<Rightarrow> r | None \<Rightarrow> ''%!(UNMODELLED)'')"

section \<open>The Must family\<close>

text \<open>
  \<^verbatim>\<open>must\<close> returns at once on a nil \<^verbatim>\<open>err\<close>; otherwise the type switch takes the
  \<^verbatim>\<open>bool\<close> case, the \<^verbatim>\<open>error\<close> case or the default. When the hook returns instead of
  panicking, control leaves the switch and \<^verbatim>\<open>must\<close> returns.
\<close>

definition must ::
  "(any \<Rightarrow> ('s, unit) go) \<Rightarrow> (string \<Rightarrow> any list \<Rightarrow> string) \<Rightarrow> any \<Rightarrow> any list \<Rightarrow> ('s, unit) go" where
  "must LoPanic sprintf err messageArgs =
     (case err of
        VNil \<Rightarrow> go_return ()
      | VBool e \<Rightarrow>
          if \<not> e then
            go_bind (go_lift (messageFromMsgAndArgs sprintf messageArgs)) (\<lambda>message.
              LoPanic (VString (if message = [] then ''not ok'' else message)))
          else go_return ()
      | VError e \<Rightarrow>
          go_bind (go_lift (messageFromMsgAndArgs sprintf messageArgs)) (\<lambda>message.
            if message \<noteq> [] then LoPanic (VString (message @ '': '' @ Error e))
            else LoPanic (VString (Error e)))
      | _ \<Rightarrow>
          go_bind (go_lift (reflect_TypeOf_Name err)) (\<lambda>name.
            LoPanic (VString (''must: invalid err type '' @ quote @ name @ quote @
              '', should either be a bool or an error''))))"

definition Must ::
  "(any \<Rightarrow> ('s, unit) go) \<Rightarrow> (string \<Rightarrow> any list \<Rightarrow> string) \<Rightarrow> 'a \<Rightarrow> any \<Rightarrow> any list \<Rightarrow> ('s, 'a) go" where
  "Must LoPanic sprintf val err messageArgs =
     go_bind (must LoPanic sprintf err messageArgs) (\<lambda>_. go_return val)"

definition Must0 ::
  "(any \<Rightarrow> ('s, unit) go) \<Rightarrow> (string \<Rightarrow> any list \<Rightarrow> string) \<Rightarrow> any \<Rightarrow> any list \<Rightarrow> ('s, unit) go" where
  "Must0 LoPanic sprintf err messageArgs = must LoPanic sprintf err messageArgs"

definition Must1 ::
  "(any \<Rightarrow> ('s, unit) go) \<Rightarrow> (string \<Rightarrow> any list \<Rightarrow> string) \<Rightarrow> 'a \<Rightarrow> any \<Rightarrow> any list \<Rightarrow> ('s, 'a) go" where
  "Must1 LoPanic sprintf val err messageArgs = Must LoPanic sprintf val err messageArgs"

definition Must2 ::
  "(any \<Rightarrow> ('s, unit) go) \<Rightarrow> (string \<Rightarrow> any list \<Rightarrow> string) \<Rightarrow> 'a \<Rightarrow> 'b \<Rightarrow> any \<Rightarrow> any list \<Rightarrow>
   ('s, 'a \<times> 'b) go" where
  "Must2 LoPanic sprintf val1 val2 err messageArgs =
     go_bind (must LoPanic sprintf err messageArgs) (\<lambda>_. go_return (val1, val2))"

definition Must3 ::
  "(any \<Rightarrow> ('s, unit) go) \<Rightarrow> (string \<Rightarrow> any list \<Rightarrow> string) \<Rightarrow> 'a \<Rightarrow> 'b \<Rightarrow> 'c \<Rightarrow> any \<Rightarrow> any list \<Rightarrow>
   ('s, 'a \<times> 'b \<times> 'c) go" where
  "Must3 LoPanic sprintf val1 val2 val3 err messageArgs =
     go_bind (must LoPanic sprintf err messageArgs) (\<lambda>_. go_return (val1, val2, val3))"

definition Must4 ::
  "(any \<Rightarrow> ('s, unit) go) \<Rightarrow> (string \<Rightarrow> any list \<Rightarrow> string) \<Rightarrow> 'a \<Rightarrow> 'b \<Rightarrow> 'c \<Rightarrow> 'd \<Rightarrow> any \<Rightarrow>
   any list \<Rightarrow> ('s, 'a \<times> 'b \<times> 'c \<times> 'd) go" where
  "Must4 LoPanic sprintf val1 val2 val3 val4 err messageArgs =
     go_bind (must LoPanic sprintf err messageArgs) (\<lambda>_. go_return (val1, val2, val3, val4))"

definition Must5 ::
  "(any \<Rightarrow> ('s, unit) go) \<Rightarrow> (string \<Rightarrow> any list \<Rightarrow> string) \<Rightarrow> 'a \<Rightarrow> 'b \<Rightarrow> 'c \<Rightarrow> 'd \<Rightarrow> 'e \<Rightarrow> any \<Rightarrow>
   any list \<Rightarrow> ('s, 'a \<times> 'b \<times> 'c \<times> 'd \<times> 'e) go" where
  "Must5 LoPanic sprintf val1 val2 val3 val4 val5 err messageArgs =
     go_bind (must LoPanic sprintf err messageArgs)
       (\<lambda>_. go_return (val1, val2, val3, val4, val5))"

definition Must6 ::
  "(any \<Rightarrow> ('s, unit) go) \<Rightarrow> (string \<Rightarrow> any list \<Rightarrow> string) \<Rightarrow> 'a \<Rightarrow> 'b \<Rightarrow> 'c \<Rightarrow> 'd \<Rightarrow> 'e \<Rightarrow> 'f \<Rightarrow>
   any \<Rightarrow> any list \<Rightarrow> ('s, 'a \<times> 'b \<times> 'c \<times> 'd \<times> 'e \<times> 'f) go" where
  "Must6 LoPanic sprintf val1 val2 val3 val4 val5 val6 err messageArgs =
     go_bind (must LoPanic sprintf err messageArgs)
       (\<lambda>_. go_return (val1, val2, val3, val4, val5, val6))"

text \<open>
  \<^verbatim>\<open>mustE\<close> takes an \<^verbatim>\<open>error\<close>, so there is no type switch: a non-nil error is wrapped
  with the composed message and handed to the hook as a \<^verbatim>\<open>wrapErrPrefixMsg\<close> value.
\<close>

definition mustE ::
  "(any \<Rightarrow> ('s, unit) go) \<Rightarrow> (string \<Rightarrow> any list \<Rightarrow> string) \<Rightarrow> error option \<Rightarrow> any list \<Rightarrow> ('s, unit) go" where
  "mustE LoPanic sprintf err messageArgs =
     (case err of
        None \<Rightarrow> go_return ()
      | Some e \<Rightarrow>
          go_bind (go_lift (messageFromMsgAndArgs sprintf messageArgs)) (\<lambda>message.
            LoPanic (VError (EWrap (WrapErrPrefixMsg e message)))))"

definition MustE ::
  "(any \<Rightarrow> ('s, unit) go) \<Rightarrow> (string \<Rightarrow> any list \<Rightarrow> string) \<Rightarrow> 'a \<Rightarrow> error option \<Rightarrow> any list \<Rightarrow> ('s, 'a) go" where
  "MustE LoPanic sprintf val err messageArgs =
     go_bind (mustE LoPanic sprintf err messageArgs) (\<lambda>_. go_return val)"

definition MustE0 ::
  "(any \<Rightarrow> ('s, unit) go) \<Rightarrow> (string \<Rightarrow> any list \<Rightarrow> string) \<Rightarrow> error option \<Rightarrow> any list \<Rightarrow> ('s, unit) go" where
  "MustE0 LoPanic sprintf err messageArgs = mustE LoPanic sprintf err messageArgs"

definition MustE1 ::
  "(any \<Rightarrow> ('s, unit) go) \<Rightarrow> (string \<Rightarrow> any list \<Rightarrow> string) \<Rightarrow> 'a \<Rightarrow> error option \<Rightarrow> any list \<Rightarrow> ('s, 'a) go" where
  "MustE1 LoPanic sprintf val1 err messageArgs =
     go_bind (mustE LoPanic sprintf err messageArgs) (\<lambda>_. go_return val1)"

definition MustE2 ::
  "(any \<Rightarrow> ('s, unit) go) \<Rightarrow> (string \<Rightarrow> any list \<Rightarrow> string) \<Rightarrow> 'a \<Rightarrow> 'b \<Rightarrow> error option \<Rightarrow> any list \<Rightarrow>
   ('s, 'a \<times> 'b) go" where
  "MustE2 LoPanic sprintf val1 val2 err messageArgs =
     go_bind (mustE LoPanic sprintf err messageArgs) (\<lambda>_. go_return (val1, val2))"

definition MustE3 ::
  "(any \<Rightarrow> ('s, unit) go) \<Rightarrow> (string \<Rightarrow> any list \<Rightarrow> string) \<Rightarrow> 'a \<Rightarrow> 'b \<Rightarrow> 'c \<Rightarrow> error option \<Rightarrow>
   any list \<Rightarrow> ('s, 'a \<times> 'b \<times> 'c) go" where
  "MustE3 LoPanic sprintf val1 val2 val3 err messageArgs =
     go_bind (mustE LoPanic sprintf err messageArgs) (\<lambda>_. go_return (val1, val2, val3))"

definition MustE4 ::
  "(any \<Rightarrow> ('s, unit) go) \<Rightarrow> (string \<Rightarrow> any list \<Rightarrow> string) \<Rightarrow> 'a \<Rightarrow> 'b \<Rightarrow> 'c \<Rightarrow> 'd \<Rightarrow> error option \<Rightarrow>
   any list \<Rightarrow> ('s, 'a \<times> 'b \<times> 'c \<times> 'd) go" where
  "MustE4 LoPanic sprintf val1 val2 val3 val4 err messageArgs =
     go_bind (mustE LoPanic sprintf err messageArgs) (\<lambda>_. go_return (val1, val2, val3, val4))"

definition MustE5 ::
  "(any \<Rightarrow> ('s, unit) go) \<Rightarrow> (string \<Rightarrow> any list \<Rightarrow> string) \<Rightarrow> 'a \<Rightarrow> 'b \<Rightarrow> 'c \<Rightarrow> 'd \<Rightarrow> 'e \<Rightarrow>
   error option \<Rightarrow> any list \<Rightarrow> ('s, 'a \<times> 'b \<times> 'c \<times> 'd \<times> 'e) go" where
  "MustE5 LoPanic sprintf val1 val2 val3 val4 val5 err messageArgs =
     go_bind (mustE LoPanic sprintf err messageArgs)
       (\<lambda>_. go_return (val1, val2, val3, val4, val5))"

definition MustE6 ::
  "(any \<Rightarrow> ('s, unit) go) \<Rightarrow> (string \<Rightarrow> any list \<Rightarrow> string) \<Rightarrow> 'a \<Rightarrow> 'b \<Rightarrow> 'c \<Rightarrow> 'd \<Rightarrow> 'e \<Rightarrow> 'f \<Rightarrow>
   error option \<Rightarrow> any list \<Rightarrow> ('s, 'a \<times> 'b \<times> 'c \<times> 'd \<times> 'e \<times> 'f) go" where
  "MustE6 LoPanic sprintf val1 val2 val3 val4 val5 val6 err messageArgs =
     go_bind (mustE LoPanic sprintf err messageArgs)
       (\<lambda>_. go_return (val1, val2, val3, val4, val5, val6))"

section \<open>The Try family\<close>

text \<open>
  \<^verbatim>\<open>Try\<close> has a named result and a deferred closure that calls \<^verbatim>\<open>recover()\<close>. The
  frame is modelled with its panicking state: \<open>None\<close> when the body returned, \<open>Some p\<close>
  when it panicked with payload \<open>p\<close>. \<open>recover\<close> yields the payload (nil when there
  is no panic) and stops the panic; \<open>func_exit\<close> is the end of the call, which returns
  the named results unless the frame is still panicking.
\<close>

definition recover :: "any option \<Rightarrow> any \<times> any option" where
  "recover panicking = (case panicking of None \<Rightarrow> (VNil, None) | Some p \<Rightarrow> (p, None))"

definition func_exit :: "any option \<Rightarrow> 'a \<Rightarrow> 'a outcome" where
  "func_exit panicking results =
     (case panicking of None \<Rightarrow> Return results | Some p \<Rightarrow> Panic p)"

definition Try :: "('s, error option) go \<Rightarrow> ('s, bool) go" where
  "Try callback s =
     (let ok = True;
          (body, s') = callback s;
          (ok, panicking) =
            (case body of
               Return err \<Rightarrow> (if err \<noteq> None then False else ok, None)
             | Panic p \<Rightarrow> (ok, Some p));
          (r, panicking) = recover panicking;
          ok = (if r \<noteq> VNil then False else ok)
      in (func_exit panicking ok, s'))"

definition Try0 :: "('s, unit) go \<Rightarrow> ('s, bool) go" where
  "Try0 callback = Try (go_bind callback (\<lambda>_. go_return None))"

definition Try1 :: "('s, error option) go \<Rightarrow> ('s, bool) go" where
  "Try1 callback = Try callback"

definition Try2 :: "('s, 'a \<times> error option) go \<Rightarrow> ('s, bool) go" where
  "Try2 callback = Try (go_bind callback (\<lambda>(_, err). go_return err))"

definition Try3 :: "('s, 'a \<times> 'b \<times> error option) go \<Rightarrow> ('s, bool) go" where
  "Try3 callback = Try (go_bind callback (\<lambda>(_, _, err). go_return err))"

definition Try4 :: "('s, 'a \<times> 'b \<times> 'c \<times> error option) go \<Rightarrow> ('s, bool) go" where
  "Try4 callback = Try (go_bind callback (\<lambda>(_, _, _, err). go_return err))"

definition Try5 :: "('s, 'a \<times> 'b \<times> 'c \<times> 'd \<times> error option) go \<Rightarrow> ('s, bool) go" where
  "Try5 callback = Try (go_bind callback (\<lambda>(_, _, _, _, err). go_return err))"

definition Try6 ::
  "('s, 'a \<times> 'b \<times> 'c \<times> 'd \<times> 'e \<times> error option) go \<Rightarrow> ('s, bool) go" where
  "Try6 callback = Try (go_bind callback (\<lambda>(_, _, _, _, _, err). go_return err))"

definition TryWithErrorValue :: "('s, error option) go \<Rightarrow> ('s, any \<times> bool) go" where
  "TryWithErrorValue callback s =
     (let errorValue = VNil;
          ok = True;
          (body, s') = callback s;
          (errorValue, ok, panicking) =
            (case body of
               Return err \<Rightarrow>
                 (if err \<noteq> None then (any_of_error err, False, None)
                  else (errorValue, ok, None))
             | Panic p \<Rightarrow> (errorValue, ok, Some p));
          (r, panicking) = recover panicking;
          (errorValue, ok) = (if r \<noteq> VNil then (r, False) else (errorValue, ok))
      in (func_exit panicking (errorValue, ok), s'))"

section \<open>The TryOr family\<close>

text \<open>
  Each \<^verbatim>\<open>TryOrN\<close> hands \<^verbatim>\<open>Try0\<close> a closure that captures the fallback parameters and
  the local \<^verbatim>\<open>ok\<close>, and assigns them only when the callback returned a nil error. The
  closure runs on the state extended with these locals, listed in the order
  \<open>(fallbackA, ..., ok)\<close>; the value \<^verbatim>\<open>Try0\<close> returns is discarded, as in the source.
\<close>

definition TryOr1 ::
  "('s, 'a \<times> error option) go \<Rightarrow> 'a \<Rightarrow>
   ('s, 'a \<times> bool) go" where
  "TryOr1 callback fallbackA s =
     (let ok = False;
          closure = (\<lambda>((fallbackA, ok), s).
            (case callback s of
               (Return (a, err), s') \<Rightarrow>
                 if err = None then (Return (), ((a, True), s'))
                 else (Return (), ((fallbackA, ok), s'))
             | (Panic p, s') \<Rightarrow> (Panic p, ((fallbackA, ok), s'))));
          (r, ((fallbackA, ok), s')) = Try0 closure ((fallbackA, ok), s)
      in (case r of
            Return _ \<Rightarrow> (Return (fallbackA, ok), s')
          | Panic p \<Rightarrow> (Panic p, s')))"

definition TryOr2 ::
  "('s, 'a \<times> 'b \<times> error option) go \<Rightarrow> 'a \<Rightarrow> 'b \<Rightarrow>
   ('s, 'a \<times> 'b \<times> bool) go" where
  "TryOr2 callback fallbackA fallbackB s =
     (let ok = False;
          closure = (\<lambda>((fallbackA, fallbackB, ok), s).
            (case callback s of
               (Return (a, b, err), s') \<Rightarrow>
                 if err = None then (Return (), ((a, b, True), s'))
                 else (Return (), ((fallbackA, fallbackB, ok), s'))
             | (Panic p, s') \<Rightarrow> (Panic p, ((fallbackA, fallbackB, ok), s'))));
          (r, ((fallbackA, fallbackB, ok), s')) = Try0 closure ((fallbackA, fallbackB, ok), s)
      in (case r of
            Return _ \<Rightarrow> (Return (fallbackA, fallbackB, ok), s')
          | Panic p \<Rightarrow> (Panic p, s')))"

definition TryOr3 ::
  "('s, 'a \<times> 'b \<times> 'c \<times> error option) go \<Rightarrow> 'a \<Rightarrow> 'b \<Rightarrow> 'c \<Rightarrow>
   ('s, 'a \<times> 'b \<times> 'c \<times> bool) go" where
  "TryOr3 callback fallbackA fallbackB fallbackC s =
     (let ok = False;
          closure = (\<lambda>((fallbackA, fallbackB, fallbackC, ok), s).
            (case callback s of
               (Return (a, b, c, err), s') \<Rightarrow>
                 if err = None then (Return (), ((a, b, c, True), s'))
                 else (Return (), ((fallbackA, fallbackB, fallbackC, ok), s'))
             | (Panic p, s') \<Rightarrow> (Panic p, ((fallbackA, fallbackB, fallbackC, ok), s'))));
          (r, ((fallbackA, fallbackB, fallbackC, ok), s')) = Try0 closure ((fallbackA, fallbackB, fallbackC, ok), s)
      in (case r of
            Return _ \<Rightarrow> (Return (fallbackA, fallbackB, fallbackC, ok), s')
          | Panic p \<Rightarrow> (Panic p, s')))"

definition TryOr4 ::
  "('s, 'a \<times> 'b \<times> 'c \<times> 'd \<times> error option) go \<Rightarrow> 'a \<Rightarrow> 'b \<Rightarrow> 'c \<Rightarrow> 'd \<Rightarrow>
   ('s, 'a \<times> 'b \<times> 'c \<times> 'd \<times> bool) go" where
  "TryOr4 callback fallbackA fallbackB fallbackC fallbackD s =
     (let ok = False;
          closure = (\<lambda>((fallbackA, fallbackB, fallbackC, fallbackD, ok), s).
            (case callback s of
               (Return (a, b, c, d, err), s') \<Rightarrow>
                 if err = None then (Return (), ((a, b, c, d, True), s'))
                 else (Return (), ((fallbackA, fallbackB, fallbackC, fallbackD, ok), s'))
             | (Panic p, s') \<Rightarrow> (Panic p, ((fallbackA, fallbackB, fallbackC, fallbackD, ok), s'))));
          (r, ((fallbackA, fallbackB, fallbackC, fallbackD, ok), s')) = Try0 closure ((fallbackA, fallbackB, fallbackC, fallbackD, ok), s)
      in (case r of
            Return _ \<Rightarrow> (Return (fallbackA, fallbackB, fallbackC, fallbackD, ok), s')
          | Panic p \<Rightarrow> (Panic p, s')))"

definition TryOr5 ::
  "('s, 'a \<times> 'b \<times> 'c \<times> 'd \<times> 'e \<times> error option) go \<Rightarrow> 'a \<Rightarrow> 'b \<Rightarrow> 'c \<Rightarrow> 'd \<Rightarrow> 'e \<Rightarrow>
   ('s, 'a \<times> 'b \<times> 'c \<times> 'd \<times> 'e \<times> bool) go" where
  "TryOr5 callback fallbackA fallbackB fallbackC fallbackD fallbackE s =
     (let ok = False;
          closure = (\<lambda>((fallbackA, fallbackB, fallbackC, fallbackD, fallbackE, ok), s).
            (case callback s of
               (Return (a, b, c, d, e, err), s') \<Rightarrow>
                 if err = None then (Return (), ((a, b, c, d, e, True), s'))
                 else (Return (), ((fallbackA, fallbackB, fallbackC, fallbackD, fallbackE, ok), s'))
             | (Panic p, s') \<Rightarrow> (Panic p, ((fallbackA, fallbackB, fallbackC, fallbackD, fallbackE, ok), s'))));
          (r, ((fallbackA, fallbackB, fallbackC, fallbackD, fallbackE, ok), s')) = Try0 closure ((fallbackA, fallbackB, fallbackC, fallbackD, fallbackE, ok), s)
      in (case r of
            Return _ \<Rightarrow> (Return (fallbackA, fallbackB, fallbackC, fallbackD, fallbackE, ok), s')
          | Panic p \<Rightarrow> (Panic p, s')))"

definition TryOr6 ::
  "('s, 'a \<times> 'b \<times> 'c \<times> 'd \<times> 'e \<times> 'f \<times> error option) go \<Rightarrow> 'a \<Rightarrow> 'b \<Rightarrow> 'c \<Rightarrow> 'd \<Rightarrow> 'e \<Rightarrow> 'f \<Rightarrow>
   ('s, 'a \<times> 'b \<times> 'c \<times> 'd \<times> 'e \<times> 'f \<times> bool) go" where
  "TryOr6 callback fallbackA fallbackB fallbackC fallbackD fallbackE fallbackF s =
     (let ok = False;
          closure = (\<lambda>((fallbackA, fallbackB, fallbackC, fallbackD, fallbackE, fallbackF, ok), s).
            (case callback s of
               (Return (a, b, c, d, e, f, err), s') \<Rightarrow>
                 if err = None then (Return (), ((a, b, c, d, e, f, True), s'))
                 else (Return (), ((fallbackA, fallbackB, fallbackC, fallbackD, fallbackE, fallbackF, ok), s'))
             | (Panic p, s') \<Rightarrow> (Panic p, ((fallbackA, fallbackB, fallbackC, fallbackD, fallbackE, fallbackF, ok), s'))));
          (r, ((fallbackA, fallbackB, fallbackC, fallbackD, fallbackE, fallbackF, ok), s')) = Try0 closure ((fallbackA, fallbackB, fallbackC, fallbackD, fallbackE, fallbackF, ok), s)
      in (case r of
            Return _ \<Rightarrow> (Return (fallbackA, fallbackB, fallbackC, fallbackD, fallbackE, fallbackF, ok), s')
          | Panic p \<Rightarrow> (Panic p, s')))"

definition TryOr :: "('s, 'a \<times> error option) go \<Rightarrow> 'a \<Rightarrow> ('s, 'a \<times> bool) go" where
  "TryOr callback fallbackA = TryOr1 callback fallbackA"

section \<open>Concrete callbacks and hooks\<close>

text \<open>
  The inputs of the worked examples: a failure value, callbacks that return, fail or
  panic, and a hook that records its argument in the state before panicking.
\<close>

definition someFailure :: error where
  "someFailure = ErrorString ''boom''"

definition returns_nil :: "(unit, error option) go" where
  "returns_nil = go_return None"

definition returns_failure :: "(unit, error option) go" where
  "returns_failure = go_return (Some someFailure)"

definition panics_with_string :: "(unit, error option) go" where
  "panics_with_string = go_panic (VString ''oops'')"

definition calls_must :: "any \<Rightarrow> any list \<Rightarrow> (unit, error option) go" where
  "calls_must err messageArgs =
     go_bind (must LoPanic_default Sprintf err messageArgs) (\<lambda>_. go_return None)"

definition nested_try :: "(unit, error option) go" where
  "nested_try =
     go_bind (Try returns_failure) (\<lambda>_.
       go_bind (must LoPanic_default Sprintf (VBool False) []) (\<lambda>_. go_return None))"

definition recording_hook :: "any \<Rightarrow> (any list, unit) go" where
  "recording_hook e log = (Panic e, log @ [e])"

section \<open>Shared lemmas\<close>

text \<open>What each boundary returns, by the outcome of its callback.\<close>

lemma Try_cases:
  "Try callback s =
     (case callback s of
        (Return err, s') \<Rightarrow> (Return (err = None), s')
      | (Panic p, s') \<Rightarrow> (Return (p = VNil), s'))"
  by (simp add: Try_def recover_def func_exit_def split: prod.splits outcome.splits option.splits)

lemma TryWithErrorValue_cases:
  "TryWithErrorValue callback s =
     (case callback s of
        (Return err, s') \<Rightarrow> (Return (any_of_error err, err = None), s')
      | (Panic p, s') \<Rightarrow> (Return (p, p = VNil), s'))"
  by (auto simp add: TryWithErrorValue_def recover_def func_exit_def
      split: prod.splits outcome.splits option.splits)

lemma Try0_cases:
  "Try0 callback s =
     (case callback s of
        (Return u, s') \<Rightarrow> (Return True, s')
      | (Panic p, s') \<Rightarrow> (Return (p = VNil), s'))"
  by (simp add: Try0_def Try_cases go_bind_def go_return_def split: prod.splits outcome.splits)

text \<open>The branches of \<^verbatim>\<open>must\<close> and \<^verbatim>\<open>mustE\<close>, and the panics of the composer.\<close>

lemma must_on_success:
  "err = VNil \<or> err = VBool True \<Longrightarrow> must LoPanic sprintf err messageArgs s = (Return (), s)"
  by (auto simp add: must_def go_return_def)

lemma must_on_other:
  assumes "dyn_type err = Some t" and "\<forall>b. err \<noteq> VBool b" and "\<forall>e. err \<noteq> VError e"
  shows "must LoPanic sprintf err messageArgs s =
     LoPanic (VString (''must: invalid err type '' @ quote @ type_Name t @ quote @
       '', should either be a bool or an error'')) s"
proof (cases err)
  case VNil
  with assms(1) show ?thesis by simp
next
  case (VBool b)
  with assms(2) show ?thesis by blast
next
  case (VError e)
  with assms(3) show ?thesis by blast
next
  case (VString x)
  with assms(1) show ?thesis by (simp add: must_def go_bind_def go_lift_def)
next
  case (VInt x)
  with assms(1) show ?thesis by (simp add: must_def go_bind_def go_lift_def)
next
  case (VOther x)
  with assms(1) show ?thesis by (simp add: must_def go_bind_def go_lift_def)
qed

lemma assert_string_payload: "assert_string v = Panic p \<Longrightarrow> p = TypeAssertionError v"
  by (cases v) simp_all

lemma composer_payload:
  assumes "messageFromMsgAndArgs sprintf messageArgs = Panic p"
  shows "length messageArgs > 1 \<and> p = TypeAssertionError (messageArgs ! 0)"
proof (cases "length messageArgs = 1")
  case True
  with assms show ?thesis
    by (simp add: messageFromMsgAndArgs_def split: any.splits)
next
  case False
  note not_one = this
  show ?thesis
  proof (cases "length messageArgs > 1")
    case True
    with assms not_one have "assert_string (messageArgs ! 0) = Panic p"
      by (simp add: messageFromMsgAndArgs_def split: outcome.splits)
    with True show ?thesis
      using assert_string_payload by blast
  next
    case False
    with assms not_one show ?thesis
      by (simp add: messageFromMsgAndArgs_def)
  qed
qed

lemma composer_payload_not_nil:
  "messageFromMsgAndArgs sprintf messageArgs = Panic p \<Longrightarrow> p \<noteq> VNil"
  using composer_payload [of sprintf messageArgs p] by (simp add: TypeAssertionError_def)

lemma must_on_false:
  "messageFromMsgAndArgs sprintf messageArgs = Return composed \<Longrightarrow>
   must LoPanic sprintf (VBool False) messageArgs s =
     LoPanic (VString (if composed = [] then ''not ok'' else composed)) s"
  by (simp add: must_def go_bind_def go_lift_def)

lemma must_on_error:
  "messageFromMsgAndArgs sprintf messageArgs = Return composed \<Longrightarrow>
   must LoPanic sprintf (VError e) messageArgs s =
     LoPanic (VString (if composed \<noteq> [] then composed @ '': '' @ Error e else Error e)) s"
  by (simp add: must_def go_bind_def go_lift_def)

lemma must_composer_panics:
  "messageFromMsgAndArgs sprintf messageArgs = Panic p \<Longrightarrow>
   err = VBool False \<or> err = VError e \<Longrightarrow>
   must LoPanic sprintf err messageArgs s = (Panic p, s)"
  by (auto simp add: must_def go_bind_def go_lift_def)

lemma must_default_aborts:
  assumes "err \<noteq> VNil" and "err \<noteq> VBool True"
  shows "\<exists>p. p \<noteq> VNil \<and> must LoPanic_default sprintf err messageArgs s = (Panic p, s)"
proof (cases err)
  case VNil
  with assms(1) show ?thesis by simp
next
  case (VBool b)
  with assms(2) have false: "err = VBool False" by simp
  show ?thesis
  proof (cases "messageFromMsgAndArgs sprintf messageArgs")
    case (Return composed)
    have "must LoPanic_default sprintf (VBool False) messageArgs s =
        (Panic (VString (if composed = [] then ''not ok'' else composed)), s)"
      unfolding must_on_false [OF Return] by (simp add: LoPanic_default_def go_panic_def)
    with false show ?thesis by simp
  next
    case (Panic p)
    have "must LoPanic_default sprintf (VBool False) messageArgs s = (Panic p, s)"
      by (rule must_composer_panics [OF Panic]) simp
    with false composer_payload_not_nil [OF Panic] show ?thesis by simp
  qed
next
  case (VError e)
  show ?thesis
  proof (cases "messageFromMsgAndArgs sprintf messageArgs")
    case (Return composed)
    have "must LoPanic_default sprintf (VError e) messageArgs s =
        (Panic (VString (if composed \<noteq> [] then composed @ '': '' @ Error e else Error e)), s)"
      unfolding must_on_error [OF Return] by (simp add: LoPanic_default_def go_panic_def)
    with VError show ?thesis by simp
  next
    case (Panic p)
    have "must LoPanic_default sprintf (VError e) messageArgs s = (Panic p, s)"
      by (rule must_composer_panics [OF Panic, where e = e]) simp
    with VError composer_payload_not_nil [OF Panic] show ?thesis by simp
  qed
next
  case (VString x)
  then show ?thesis
    by (simp add: must_def go_bind_def go_lift_def LoPanic_default_def go_panic_def)
next
  case (VInt x)
  then show ?thesis
    by (simp add: must_def go_bind_def go_lift_def LoPanic_default_def go_panic_def)
next
  case (VOther x)
  then show ?thesis
    by (simp add: must_def go_bind_def go_lift_def LoPanic_default_def go_panic_def)
qed

lemma mustE_on_failure:
  "messageFromMsgAndArgs sprintf messageArgs = Return composed \<Longrightarrow>
   mustE LoPanic sprintf (Some F) messageArgs s =
     LoPanic (VError (EWrap (WrapErrPrefixMsg F composed))) s"
  by (simp add: mustE_def go_bind_def go_lift_def)

lemma mustE_composer_panics:
  "messageFromMsgAndArgs sprintf messageArgs = Panic p \<Longrightarrow>
   mustE LoPanic sprintf (Some F) messageArgs s = (Panic p, s)"
  by (simp add: mustE_def go_bind_def go_lift_def)

lemma mustE_default_aborts:
  "\<exists>p. p \<noteq> VNil \<and> mustE LoPanic_default sprintf (Some F) messageArgs s = (Panic p, s)"
proof (cases "messageFromMsgAndArgs sprintf messageArgs")
  case (Return composed)
  have "mustE LoPanic_default sprintf (Some F) messageArgs s =
      (Panic (VError (EWrap (WrapErrPrefixMsg F composed))), s)"
    unfolding mustE_on_failure [OF Return] by (simp add: LoPanic_default_def go_panic_def)
  then show ?thesis by simp
next
  case (Panic p)
  have "mustE LoPanic_default sprintf (Some F) messageArgs s = (Panic p, s)"
    by (rule mustE_composer_panics [OF Panic])
  with composer_payload_not_nil [OF Panic] show ?thesis by simp
qed

section \<open>Try as a boundary (C1)\<close>

text \<open>
  \<^verbatim>\<open>Try\<close> around a callback that calls \<^verbatim>\<open>must\<close> or \<^verbatim>\<open>mustE\<close> under the default hook,
  alone or followed by the return of values.
\<close>

lemma Try_around_must:
  "Try (go_bind (must LoPanic_default sprintf ind messageArgs) (\<lambda>_. go_return None)) s =
     (Return (ind = VNil \<or> ind = VBool True), s)"
proof (cases "ind = VNil \<or> ind = VBool True")
  case True
  have "must LoPanic_default sprintf ind messageArgs s = (Return (), s)"
    by (rule must_on_success [OF True])
  with True show ?thesis
    by (simp add: Try_cases go_bind_def go_return_def)
next
  case False
  then have "ind \<noteq> VNil" and "ind \<noteq> VBool True" by simp_all
  then obtain p where "p \<noteq> VNil"
    and "must LoPanic_default sprintf ind messageArgs s = (Panic p, s)"
    using must_default_aborts [of ind sprintf messageArgs s] by blast
  with False show ?thesis
    by (simp add: Try_cases go_bind_def)
qed

lemma Try_around_must_values:
  "Try (go_bind (go_bind (must LoPanic_default sprintf ind messageArgs) (\<lambda>_. go_return v))
      (\<lambda>_. go_return None)) s =
     (Return (ind = VNil \<or> ind = VBool True), s)"
proof (cases "ind = VNil \<or> ind = VBool True")
  case True
  have "must LoPanic_default sprintf ind messageArgs s = (Return (), s)"
    by (rule must_on_success [OF True])
  with True show ?thesis
    by (simp add: Try_cases go_bind_def go_return_def)
next
  case False
  then have "ind \<noteq> VNil" and "ind \<noteq> VBool True" by simp_all
  then obtain p where "p \<noteq> VNil"
    and "must LoPanic_default sprintf ind messageArgs s = (Panic p, s)"
    using must_default_aborts [of ind sprintf messageArgs s] by blast
  with False show ?thesis
    by (simp add: Try_cases go_bind_def)
qed

lemma Try_around_mustE:
  "Try (go_bind (mustE LoPanic_default sprintf err messageArgs) (\<lambda>_. go_return None)) s =
     (Return (err = None), s)"
proof (cases err)
  case None
  then show ?thesis
    by (simp add: Try_cases go_bind_def go_return_def mustE_def)
next
  case (Some F)
  obtain p where "p \<noteq> VNil"
    and "mustE LoPanic_default sprintf (Some F) messageArgs s = (Panic p, s)"
    using mustE_default_aborts [of sprintf F messageArgs s] by blast
  with Some show ?thesis
    by (simp add: Try_cases go_bind_def)
qed

lemma Try_around_mustE_values:
  "Try (go_bind (go_bind (mustE LoPanic_default sprintf err messageArgs) (\<lambda>_. go_return v))
      (\<lambda>_. go_return None)) s =
     (Return (err = None), s)"
proof (cases err)
  case None
  then show ?thesis
    by (simp add: Try_cases go_bind_def go_return_def mustE_def)
next
  case (Some F)
  obtain p where "p \<noteq> VNil"
    and "mustE LoPanic_default sprintf (Some F) messageArgs s = (Panic p, s)"
    using mustE_default_aborts [of sprintf F messageArgs s] by blast
  with Some show ?thesis
    by (simp add: Try_cases go_bind_def)
qed

text \<open>
  Claim C1. A panicking callback is a callback whose outcome is \<open>Panic p\<close>, where \<open>p\<close> is
  what \<^verbatim>\<open>recover()\<close> yields in the deferred closure; Go guarantees that this value is
  not nil while the goroutine panics, which is the hypothesis of the first statement.
  For every such callback \<^verbatim>\<open>Try\<close> returns \<open>True\<close> if and only if the callback returned
  a nil error, that is, returned no failure and raised no abort. Whatever the callback
  does, \<^verbatim>\<open>Try\<close> returns normally, in the state the callback left: no abort reaches its
  caller. In particular a callback that calls any function of the Must family (\<^verbatim>\<open>must\<close>,
  \<^verbatim>\<open>Must\<close>, \<^verbatim>\<open>Must0\<close> to \<^verbatim>\<open>Must6\<close>, \<^verbatim>\<open>mustE\<close>, \<^verbatim>\<open>MustE\<close>, \<^verbatim>\<open>MustE0\<close> to \<^verbatim>\<open>MustE6\<close>)
  under the default hook makes \<^verbatim>\<open>Try\<close> return \<open>True\<close> exactly for a success indicator
  and \<open>False\<close> for every failing one, whatever the message arguments are. The spec's
  examples are instances: \<^verbatim>\<open>try(() -> nil)\<close> is true, \<^verbatim>\<open>try(() -> someFailure)\<close> and
  \<^verbatim>\<open>try(() -> { must(someFailure) })\<close> are false.
\<close>

theorem Try_reports_outcome:
  "(fst (callback s) \<noteq> Panic VNil \<longrightarrow>
      Try callback s = (Return (fst (callback s) = Return None), snd (callback s)))
   \<and> (\<forall>p. fst (Try callback s) \<noteq> Panic p)
   \<and> snd (Try callback s) = snd (callback s)
   \<and> Try (go_bind (must LoPanic_default sprintf ind messageArgs) (\<lambda>_. go_return None)) s =
       (Return (ind = VNil \<or> ind = VBool True), s)
   \<and> Try (go_bind (Must0 LoPanic_default sprintf ind messageArgs) (\<lambda>_. go_return None)) s =
       (Return (ind = VNil \<or> ind = VBool True), s)
   \<and> Try (go_bind (Must LoPanic_default sprintf va ind messageArgs) (\<lambda>_. go_return None)) s =
       (Return (ind = VNil \<or> ind = VBool True), s)
   \<and> Try (go_bind (Must1 LoPanic_default sprintf va ind messageArgs) (\<lambda>_. go_return None)) s =
       (Return (ind = VNil \<or> ind = VBool True), s)
   \<and> Try (go_bind (Must2 LoPanic_default sprintf va vb ind messageArgs) (\<lambda>_. go_return None)) s =
       (Return (ind = VNil \<or> ind = VBool True), s)
   \<and> Try (go_bind (Must3 LoPanic_default sprintf va vb vc ind messageArgs) (\<lambda>_. go_return None)) s =
       (Return (ind = VNil \<or> ind = VBool True), s)
   \<and> Try (go_bind (Must4 LoPanic_default sprintf va vb vc vd ind messageArgs) (\<lambda>_. go_return None)) s =
       (Return (ind = VNil \<or> ind = VBool True), s)
   \<and> Try (go_bind (Must5 LoPanic_default sprintf va vb vc vd ve ind messageArgs) (\<lambda>_. go_return None)) s =
       (Return (ind = VNil \<or> ind = VBool True), s)
   \<and> Try (go_bind (Must6 LoPanic_default sprintf va vb vc vd ve vf ind messageArgs) (\<lambda>_. go_return None)) s =
       (Return (ind = VNil \<or> ind = VBool True), s)
   \<and> Try (go_bind (mustE LoPanic_default sprintf err messageArgs) (\<lambda>_. go_return None)) s =
       (Return (err = None), s)
   \<and> Try (go_bind (MustE0 LoPanic_default sprintf err messageArgs) (\<lambda>_. go_return None)) s =
       (Return (err = None), s)
   \<and> Try (go_bind (MustE LoPanic_default sprintf va err messageArgs) (\<lambda>_. go_return None)) s =
       (Return (err = None), s)
   \<and> Try (go_bind (MustE1 LoPanic_default sprintf va err messageArgs) (\<lambda>_. go_return None)) s =
       (Return (err = None), s)
   \<and> Try (go_bind (MustE2 LoPanic_default sprintf va vb err messageArgs) (\<lambda>_. go_return None)) s =
       (Return (err = None), s)
   \<and> Try (go_bind (MustE3 LoPanic_default sprintf va vb vc err messageArgs) (\<lambda>_. go_return None)) s =
       (Return (err = None), s)
   \<and> Try (go_bind (MustE4 LoPanic_default sprintf va vb vc vd err messageArgs) (\<lambda>_. go_return None)) s =
       (Return (err = None), s)
   \<and> Try (go_bind (MustE5 LoPanic_default sprintf va vb vc vd ve err messageArgs) (\<lambda>_. go_return None)) s =
       (Return (err = None), s)
   \<and> Try (go_bind (MustE6 LoPanic_default sprintf va vb vc vd ve vf err messageArgs) (\<lambda>_. go_return None)) s =
       (Return (err = None), s)
   \<and> Try returns_nil () = (Return True, ())
   \<and> Try returns_failure () = (Return False, ())
   \<and> Try (calls_must (VError someFailure) []) () = (Return False, ())"
proof -
  have general: "fst (callback s) \<noteq> Panic VNil \<longrightarrow>
      Try callback s = (Return (fst (callback s) = Return None), snd (callback s))"
    by (auto simp add: Try_cases split: prod.splits outcome.splits)
  have contained: "\<forall>p. fst (Try callback s) \<noteq> Panic p"
    by (simp add: Try_cases split: prod.splits outcome.splits)
  have state: "snd (Try callback s) = snd (callback s)"
    by (simp add: Try_cases split: prod.splits outcome.splits)
  have examples: "Try returns_nil () = (Return True, ())
      \<and> Try returns_failure () = (Return False, ())
      \<and> Try (calls_must (VError someFailure) []) () = (Return False, ())"
    by (simp add: Try_cases returns_nil_def returns_failure_def calls_must_def go_return_def
        go_bind_def must_def go_lift_def messageFromMsgAndArgs_def LoPanic_default_def
        go_panic_def)
  from general contained state examples show ?thesis
    unfolding Must_def Must0_def Must1_def Must2_def Must3_def Must4_def Must5_def Must6_def
      MustE_def MustE0_def MustE1_def MustE2_def MustE3_def MustE4_def MustE5_def MustE6_def
    by (intro conjI Try_around_must Try_around_must_values Try_around_mustE
        Try_around_mustE_values) simp_all
qed

text \<open>
  Instances: a callback that panics with the plain string \<open>''oops''\<close> makes \<^verbatim>\<open>Try\<close> return
  \<open>False\<close>, one that returns nil makes it return \<open>True\<close>, and \<^verbatim>\<open>Try\<close> around
  \<^verbatim>\<open>Must2(1, "a", false, 1, 2)\<close>, where the composer panics, returns \<open>False\<close>.
\<close>

theorem Try_reports_outcome_witness:
  "Try panics_with_string () = (Return False, ())
   \<and> Try returns_nil () = (Return True, ())
   \<and> Try (go_bind (Must2 LoPanic_default Sprintf (1 :: int) ''a'' (VBool False)
          [VInt 1, VInt 2]) (\<lambda>_. go_return None)) () = (Return False, ())"
proof -
  have panics: "fst (panics_with_string ()) \<noteq> Panic VNil"
    and panics': "fst (panics_with_string ()) \<noteq> Return None"
    by (simp_all add: panics_with_string_def go_panic_def)
  have returns: "fst (returns_nil ()) \<noteq> Panic VNil"
    and returns': "fst (returns_nil ()) = Return None"
    by (simp_all add: returns_nil_def go_return_def)
  have a: "Try panics_with_string () = (Return False, ())"
    using Try_reports_outcome [where callback = panics_with_string and s = "()"
        and sprintf = Sprintf and ind = "VBool False" and messageArgs = "[VInt 1, VInt 2]"
        and err = None and va = "1 :: int" and vb = "''a''" and vc = "()" and vd = "()"
        and ve = "()" and vf = "()", THEN conjunct1] panics panics'
    by simp
  have b: "Try returns_nil () = (Return True, ())"
    using Try_reports_outcome [where callback = returns_nil and s = "()"
        and sprintf = Sprintf and ind = "VBool False" and messageArgs = "[VInt 1, VInt 2]"
        and err = None and va = "1 :: int" and vb = "''a''" and vc = "()" and vd = "()"
        and ve = "()" and vf = "()", THEN conjunct1] returns returns'
    by simp
  have c: "Try (go_bind (Must2 LoPanic_default Sprintf (1 :: int) ''a'' (VBool False)
          [VInt 1, VInt 2]) (\<lambda>_. go_return None)) () = (Return False, ())"
    using Try_reports_outcome [where callback = returns_nil and s = "()"
        and sprintf = Sprintf and ind = "VBool False" and messageArgs = "[VInt 1, VInt 2]"
        and err = None and va = "1 :: int" and vb = "''a''" and vc = "()" and vd = "()"
        and ve = "()" and vf = "()"]
    by simp
  from a b c show ?thesis by (intro conjI)
qed

section \<open>The success path of the Must family (C2)\<close>

text \<open>
  Claim C2. For a success indicator (nil, or the boolean \<open>True\<close>) every function of the
  Must family, of arity 0 to 6, returns exactly the values it was given and leaves the
  state alone, for every hook, every formatter and every list of message arguments.
  Since the hook is arbitrary (it may panic, or change the state), the equations say
  that it is not called; the composer is not evaluated either, so message arguments on
  which it would panic do no harm.
\<close>

theorem Must_success_passthrough:
  assumes "indicator = VNil \<or> indicator = VBool True"
  shows "must LoPanic sprintf indicator messageArgs s = (Return (), s)
    \<and> Must0 LoPanic sprintf indicator messageArgs s = (Return (), s)
    \<and> Must LoPanic sprintf va indicator messageArgs s = (Return va, s)
    \<and> Must1 LoPanic sprintf va indicator messageArgs s = (Return va, s)
    \<and> Must2 LoPanic sprintf va vb indicator messageArgs s = (Return (va, vb), s)
    \<and> Must3 LoPanic sprintf va vb vc indicator messageArgs s = (Return (va, vb, vc), s)
    \<and> Must4 LoPanic sprintf va vb vc vd indicator messageArgs s =
          (Return (va, vb, vc, vd), s)
    \<and> Must5 LoPanic sprintf va vb vc vd ve indicator messageArgs s =
          (Return (va, vb, vc, vd, ve), s)
    \<and> Must6 LoPanic sprintf va vb vc vd ve vf indicator messageArgs s =
          (Return (va, vb, vc, vd, ve, vf), s)"
proof -
  have core: "must LoPanic sprintf indicator messageArgs s = (Return (), s)"
    by (rule must_on_success [OF assms])
  then show ?thesis
    by (simp add: Must_def Must0_def Must1_def Must2_def Must3_def Must4_def Must5_def
        Must6_def go_bind_def go_return_def)
qed

text \<open>
  An instance: \<^verbatim>\<open>Must2(1, "a", true, 1, 2)\<close> under the recording hook returns \<open>(1, ''a'')\<close>
  and records nothing, although the composer would panic on the arguments \<open>1, 2\<close>.
\<close>

theorem Must_success_passthrough_witness:
  "Must2 recording_hook Sprintf (1::int) ''a'' (VBool True) [VInt 1, VInt 2] [] =
     (Return (1, ''a''), [])
   \<and> Must0 recording_hook Sprintf VNil [] [] = (Return (), [])
   \<and> messageFromMsgAndArgs Sprintf [VInt 1, VInt 2] = Panic (TypeAssertionError (VInt 1))"
proof -
  have "VBool True = VNil \<or> VBool True = VBool True" by simp
  from Must_success_passthrough [OF this, where LoPanic = recording_hook
      and sprintf = Sprintf and messageArgs = "[VInt 1, VInt 2]" and s = "[]"
      and va = "1::int" and vb = "''a''" and vc = "()" and vd = "()" and ve = "()"
      and vf = "()"]
  have a: "Must2 recording_hook Sprintf (1::int) ''a'' (VBool True) [VInt 1, VInt 2] [] =
     (Return (1, ''a''), [])" by simp
  have "VNil = VNil \<or> VNil = VBool True" by simp
  from Must_success_passthrough [OF this, where LoPanic = recording_hook
      and sprintf = Sprintf and messageArgs = "[]" and s = "[]"
      and va = "()" and vb = "()" and vc = "()" and vd = "()" and ve = "()" and vf = "()"]
  have b: "Must0 recording_hook Sprintf VNil [] [] = (Return (), [])" by simp
  have c: "messageFromMsgAndArgs Sprintf [VInt 1, VInt 2] = Panic (TypeAssertionError (VInt 1))"
    by (simp add: messageFromMsgAndArgs_def)
  from a b c show ?thesis by (intro conjI)
qed

section \<open>The failure path of the Must family (C3)\<close>

text \<open>
  Claim C3, as amended. When the composer returns a message for the message arguments,
  a failing indicator makes \<^verbatim>\<open>must\<close> call the hook once, with a string: for the boolean
  \<open>False\<close> the composed message, or \<open>''not ok''\<close> when it is empty; for an error the
  composed message, \<open>'': ''\<close> and the error's text, or the error's text alone when the
  composed message is empty. \<^verbatim>\<open>Must\<close> and \<^verbatim>\<open>Must0\<close> to \<^verbatim>\<open>Must6\<close> do the same and return
  their values only if the hook returns; under the default hook all of them panic with
  that string.
\<close>

theorem must_failure_payload:
  assumes "messageFromMsgAndArgs sprintf messageArgs = Return composed"
    and "(indicator = VBool False \<and>
            payload = VString (if composed = [] then ''not ok'' else composed)) \<or>
         (indicator = VError e \<and>
            payload = VString (if composed \<noteq> [] then composed @ '': '' @ Error e else Error e))"
  shows "must LoPanic sprintf indicator messageArgs s = LoPanic payload s
    \<and> Must0 LoPanic sprintf indicator messageArgs s = LoPanic payload s
    \<and> Must LoPanic sprintf va indicator messageArgs s =
          go_bind (LoPanic payload) (\<lambda>_. go_return va) s
    \<and> Must1 LoPanic sprintf va indicator messageArgs s =
          go_bind (LoPanic payload) (\<lambda>_. go_return va) s
    \<and> Must2 LoPanic sprintf va vb indicator messageArgs s =
          go_bind (LoPanic payload) (\<lambda>_. go_return (va, vb)) s
    \<and> Must3 LoPanic sprintf va vb vc indicator messageArgs s =
          go_bind (LoPanic payload) (\<lambda>_. go_return (va, vb, vc)) s
    \<and> Must4 LoPanic sprintf va vb vc vd indicator messageArgs s =
          go_bind (LoPanic payload) (\<lambda>_. go_return (va, vb, vc, vd)) s
    \<and> Must5 LoPanic sprintf va vb vc vd ve indicator messageArgs s =
          go_bind (LoPanic payload) (\<lambda>_. go_return (va, vb, vc, vd, ve)) s
    \<and> Must6 LoPanic sprintf va vb vc vd ve vf indicator messageArgs s =
          go_bind (LoPanic payload) (\<lambda>_. go_return (va, vb, vc, vd, ve, vf)) s
    \<and> must LoPanic_default sprintf indicator messageArgs s = (Panic payload, s)
    \<and> Must6 LoPanic_default sprintf va vb vc vd ve vf indicator messageArgs s =
          (Panic payload, s)"
proof -
  have core: "must LoPanic sprintf indicator messageArgs s = LoPanic payload s" for LoPanic
    using assms(2) must_on_false [OF assms(1)] must_on_error [OF assms(1)] by auto
  have default: "must LoPanic_default sprintf indicator messageArgs s = (Panic payload, s)"
    by (simp add: core LoPanic_default_def go_panic_def)
  have default6: "Must6 LoPanic_default sprintf va vb vc vd ve vf indicator messageArgs s =
      (Panic payload, s)"
    by (simp add: Must6_def go_bind_def default)
  have "must LoPanic sprintf indicator messageArgs s = LoPanic payload s"
    by (rule core)
  moreover have "Must0 LoPanic sprintf indicator messageArgs s = LoPanic payload s"
    unfolding Must0_def by (rule core)
  moreover have "Must LoPanic sprintf va indicator messageArgs s =
      go_bind (LoPanic payload) (\<lambda>_. go_return va) s"
    unfolding Must_def by (simp add: go_bind_def core)
  moreover have "Must1 LoPanic sprintf va indicator messageArgs s =
      go_bind (LoPanic payload) (\<lambda>_. go_return va) s"
    unfolding Must1_def Must_def by (simp add: go_bind_def core)
  moreover have "Must2 LoPanic sprintf va vb indicator messageArgs s =
      go_bind (LoPanic payload) (\<lambda>_. go_return (va, vb)) s"
    unfolding Must2_def by (simp add: go_bind_def core)
  moreover have "Must3 LoPanic sprintf va vb vc indicator messageArgs s =
      go_bind (LoPanic payload) (\<lambda>_. go_return (va, vb, vc)) s"
    unfolding Must3_def by (simp add: go_bind_def core)
  moreover have "Must4 LoPanic sprintf va vb vc vd indicator messageArgs s =
      go_bind (LoPanic payload) (\<lambda>_. go_return (va, vb, vc, vd)) s"
    unfolding Must4_def by (simp add: go_bind_def core)
  moreover have "Must5 LoPanic sprintf va vb vc vd ve indicator messageArgs s =
      go_bind (LoPanic payload) (\<lambda>_. go_return (va, vb, vc, vd, ve)) s"
    unfolding Must5_def by (simp add: go_bind_def core)
  moreover have "Must6 LoPanic sprintf va vb vc vd ve vf indicator messageArgs s =
      go_bind (LoPanic payload) (\<lambda>_. go_return (va, vb, vc, vd, ve, vf)) s"
    unfolding Must6_def by (simp add: go_bind_def core)
  ultimately show ?thesis
    using default default6 by (intro conjI)
qed

text \<open>
  Instances, with the hook that records its argument: \<^verbatim>\<open>must(err, "ctx")\<close> for an error
  whose text is \<open>''boom''\<close> hands the hook \<open>''ctx: boom''\<close>, once; \<^verbatim>\<open>must(false)\<close> hands
  it \<open>''not ok''\<close>.
\<close>

theorem must_failure_payload_witness:
  "must recording_hook Sprintf (VError someFailure) [VString ''ctx''] [] =
     (Panic (VString ''ctx: boom''), [VString ''ctx: boom''])
   \<and> must recording_hook Sprintf (VBool False) [] [] =
     (Panic (VString ''not ok''), [VString ''not ok''])"
proof -
  have composed: "messageFromMsgAndArgs Sprintf [VString ''ctx''] = Return ''ctx''"
    by (simp add: messageFromMsgAndArgs_def)
  have shape: "(VError someFailure = VBool False \<and>
        VString ''ctx: boom'' = VString (if ''ctx'' = [] then ''not ok'' else ''ctx'')) \<or>
      (VError someFailure = VError someFailure \<and>
        VString ''ctx: boom'' =
          VString (if ''ctx'' \<noteq> [] then ''ctx'' @ '': '' @ Error someFailure
                   else Error someFailure))"
    by (simp add: someFailure_def)
  have a: "must recording_hook Sprintf (VError someFailure) [VString ''ctx''] [] =
     (Panic (VString ''ctx: boom''), [VString ''ctx: boom''])"
    using must_failure_payload [OF composed shape, where LoPanic = recording_hook and s = "[]"
        and va = "()" and vb = "()" and vc = "()" and vd = "()" and ve = "()" and vf = "()"]
    by (simp add: recording_hook_def)
  have empty: "messageFromMsgAndArgs Sprintf [] = Return []"
    by (simp add: messageFromMsgAndArgs_def)
  have shape': "(VBool False = VBool False \<and>
        VString ''not ok'' = VString (if [] = [] then ''not ok'' else [])) \<or>
      (VBool False = VError someFailure \<and>
        VString ''not ok'' =
          VString (if [] \<noteq> [] then [] @ '': '' @ Error someFailure else Error someFailure))"
    by simp
  have b: "must recording_hook Sprintf (VBool False) [] [] =
     (Panic (VString ''not ok''), [VString ''not ok''])"
    using must_failure_payload [OF empty shape', where LoPanic = recording_hook and s = "[]"
        and va = "()" and vb = "()" and vc = "()" and vd = "()" and ve = "()" and vf = "()"]
    by (simp add: recording_hook_def)
  from a b show ?thesis by (intro conjI)
qed

text \<open>
  Claim C3 as stated fails where the composer itself panics: \<^verbatim>\<open>must(false, 1, 2)\<close> is on
  the failure path, yet the hook is never called (the record stays empty) and the abort
  is the runtime's failed type assertion, not a composed message.
\<close>

theorem must_composer_abort_counterexample:
  "must recording_hook Sprintf (VBool False) [VInt 1, VInt 2] [] =
     (Panic (VError (OtherError (Unnamed ''*runtime.TypeAssertionError'')
        ''interface conversion: interface {} is int, not string'')), [])"
  by (simp add: must_def go_bind_def go_lift_def messageFromMsgAndArgs_def
      TypeAssertionError_def)

section \<open>The error-only variant (C4)\<close>

text \<open>
  Claim C4, as amended. When the composer returns a message for the message arguments,
  \<^verbatim>\<open>mustE\<close> and \<^verbatim>\<open>MustE\<close>, \<^verbatim>\<open>MustE0\<close> to \<^verbatim>\<open>MustE6\<close> hand the hook a \<^verbatim>\<open>wrapErrPrefixMsg\<close>
  value, not a string, for every non-nil error \<open>F\<close>: its \<open>Base\<close> is \<open>F\<close>, its \<open>Attach\<close> is
  the composed message, and \<open>Unwrap\<close> gives \<open>F\<close> back. Under the default hook the call
  panics with that value.
\<close>

theorem mustE_wraps_failure:
  assumes "messageFromMsgAndArgs sprintf messageArgs = Return composed"
    and "wrapper = WrapErrPrefixMsg F composed"
  shows "mustE LoPanic sprintf (Some F) messageArgs s = LoPanic (VError (EWrap wrapper)) s
    \<and> MustE0 LoPanic sprintf (Some F) messageArgs s = LoPanic (VError (EWrap wrapper)) s
    \<and> MustE LoPanic sprintf va (Some F) messageArgs s =
          go_bind (LoPanic (VError (EWrap wrapper))) (\<lambda>_. go_return va) s
    \<and> MustE1 LoPanic sprintf va (Some F) messageArgs s =
          go_bind (LoPanic (VError (EWrap wrapper))) (\<lambda>_. go_return va) s
    \<and> MustE2 LoPanic sprintf va vb (Some F) messageArgs s =
          go_bind (LoPanic (VError (EWrap wrapper))) (\<lambda>_. go_return (va, vb)) s
    \<and> MustE3 LoPanic sprintf va vb vc (Some F) messageArgs s =
          go_bind (LoPanic (VError (EWrap wrapper))) (\<lambda>_. go_return (va, vb, vc)) s
    \<and> MustE4 LoPanic sprintf va vb vc vd (Some F) messageArgs s =
          go_bind (LoPanic (VError (EWrap wrapper))) (\<lambda>_. go_return (va, vb, vc, vd)) s
    \<and> MustE5 LoPanic sprintf va vb vc vd ve (Some F) messageArgs s =
          go_bind (LoPanic (VError (EWrap wrapper))) (\<lambda>_. go_return (va, vb, vc, vd, ve)) s
    \<and> MustE6 LoPanic sprintf va vb vc vd ve vf (Some F) messageArgs s =
          go_bind (LoPanic (VError (EWrap wrapper)))
            (\<lambda>_. go_return (va, vb, vc, vd, ve, vf)) s
    \<and> mustE LoPanic_default sprintf (Some F) messageArgs s = (Panic (VError (EWrap wrapper)), s)
    \<and> MustE6 LoPanic_default sprintf va vb vc vd ve vf (Some F) messageArgs s =
          (Panic (VError (EWrap wrapper)), s)
    \<and> Base wrapper = F \<and> Attach wrapper = composed \<and> Unwrap wrapper = F
    \<and> (\<forall>str. VError (EWrap wrapper) \<noteq> VString str)"
proof -
  have core: "mustE LoPanic sprintf (Some F) messageArgs s = LoPanic (VError (EWrap wrapper)) s"
    for LoPanic
    unfolding assms(2) by (rule mustE_on_failure [OF assms(1)])
  have default: "mustE LoPanic_default sprintf (Some F) messageArgs s =
      (Panic (VError (EWrap wrapper)), s)"
    by (simp add: core LoPanic_default_def go_panic_def)
  have default6: "MustE6 LoPanic_default sprintf va vb vc vd ve vf (Some F) messageArgs s =
      (Panic (VError (EWrap wrapper)), s)"
    by (simp add: MustE6_def go_bind_def default)
  have fields: "Base wrapper = F \<and> Attach wrapper = composed \<and> Unwrap wrapper = F
      \<and> (\<forall>str. VError (EWrap wrapper) \<noteq> VString str)"
    by (simp add: assms(2) Unwrap_def)
  have "mustE LoPanic sprintf (Some F) messageArgs s = LoPanic (VError (EWrap wrapper)) s"
    by (rule core)
  moreover have "MustE0 LoPanic sprintf (Some F) messageArgs s =
      LoPanic (VError (EWrap wrapper)) s"
    unfolding MustE0_def by (rule core)
  moreover have "MustE LoPanic sprintf va (Some F) messageArgs s =
      go_bind (LoPanic (VError (EWrap wrapper))) (\<lambda>_. go_return va) s"
    unfolding MustE_def by (simp add: go_bind_def core)
  moreover have "MustE1 LoPanic sprintf va (Some F) messageArgs s =
      go_bind (LoPanic (VError (EWrap wrapper))) (\<lambda>_. go_return va) s"
    unfolding MustE1_def by (simp add: go_bind_def core)
  moreover have "MustE2 LoPanic sprintf va vb (Some F) messageArgs s =
      go_bind (LoPanic (VError (EWrap wrapper))) (\<lambda>_. go_return (va, vb)) s"
    unfolding MustE2_def by (simp add: go_bind_def core)
  moreover have "MustE3 LoPanic sprintf va vb vc (Some F) messageArgs s =
      go_bind (LoPanic (VError (EWrap wrapper))) (\<lambda>_. go_return (va, vb, vc)) s"
    unfolding MustE3_def by (simp add: go_bind_def core)
  moreover have "MustE4 LoPanic sprintf va vb vc vd (Some F) messageArgs s =
      go_bind (LoPanic (VError (EWrap wrapper))) (\<lambda>_. go_return (va, vb, vc, vd)) s"
    unfolding MustE4_def by (simp add: go_bind_def core)
  moreover have "MustE5 LoPanic sprintf va vb vc vd ve (Some F) messageArgs s =
      go_bind (LoPanic (VError (EWrap wrapper))) (\<lambda>_. go_return (va, vb, vc, vd, ve)) s"
    unfolding MustE5_def by (simp add: go_bind_def core)
  moreover have "MustE6 LoPanic sprintf va vb vc vd ve vf (Some F) messageArgs s =
      go_bind (LoPanic (VError (EWrap wrapper)))
        (\<lambda>_. go_return (va, vb, vc, vd, ve, vf)) s"
    unfolding MustE6_def by (simp add: go_bind_def core)
  ultimately show ?thesis
    using default default6 fields by (intro conjI) simp_all
qed

text \<open>
  An instance: \<^verbatim>\<open>mustE(F, "ctx")\<close> hands the recording hook the wrapper of \<open>F\<close> with
  attachment \<open>''ctx''\<close>; the wrapper displays as \<open>''ctx: boom''\<close> and unwraps to \<open>F\<close>.
\<close>

theorem mustE_wraps_failure_witness:
  "mustE recording_hook Sprintf (Some someFailure) [VString ''ctx''] [] =
     (Panic (VError (EWrap (WrapErrPrefixMsg someFailure ''ctx''))),
      [VError (EWrap (WrapErrPrefixMsg someFailure ''ctx''))])
   \<and> Unwrap (WrapErrPrefixMsg someFailure ''ctx'') = someFailure
   \<and> wrapErrPrefixMsg_Error (WrapErrPrefixMsg someFailure ''ctx'') = ''ctx: boom''"
proof -
  have composed: "messageFromMsgAndArgs Sprintf [VString ''ctx''] = Return ''ctx''"
    by (simp add: messageFromMsgAndArgs_def)
  have "mustE recording_hook Sprintf (Some someFailure) [VString ''ctx''] [] =
     (Panic (VError (EWrap (WrapErrPrefixMsg someFailure ''ctx''))),
      [VError (EWrap (WrapErrPrefixMsg someFailure ''ctx''))])
     \<and> Unwrap (WrapErrPrefixMsg someFailure ''ctx'') = someFailure"
    using mustE_wraps_failure [OF composed refl, where LoPanic = recording_hook and s = "[]"
        and F = someFailure
        and va = "()" and vb = "()" and vc = "()" and vd = "()" and ve = "()" and vf = "()"]
    by (simp add: recording_hook_def)
  moreover have "wrapErrPrefixMsg_Error (WrapErrPrefixMsg someFailure ''ctx'') = ''ctx: boom''"
    by (simp add: someFailure_def)
  ultimately show ?thesis by simp
qed

text \<open>
  Claim C4 as stated fails for message arguments on which the composer panics:
  \<^verbatim>\<open>mustE(F, 1, 2)\<close> aborts with the runtime's failed type assertion and never builds a
  wrapper.
\<close>

theorem mustE_composer_abort_counterexample:
  "mustE LoPanic_default Sprintf (Some someFailure) [VInt 1, VInt 2] () =
     (Panic (VError (OtherError (Unnamed ''*runtime.TypeAssertionError'')
        ''interface conversion: interface {} is int, not string'')), ())"
  by (simp add: mustE_def go_bind_def go_lift_def messageFromMsgAndArgs_def
      TypeAssertionError_def)

section \<open>Fallback values (C5)\<close>

text \<open>Each arity, by the outcome of its callback.\<close>

lemma TryOr1_cases:
  "TryOr1 callback fallbackA s =
     (case callback s of
        (Return (a, err), s') \<Rightarrow>
          if err = None then (Return (a, True), s')
          else (Return (fallbackA, False), s')
      | (Panic p, s') \<Rightarrow> (Return (fallbackA, False), s'))"
  by (simp add: TryOr1_def Try0_cases split: prod.splits outcome.splits)

lemma TryOr2_cases:
  "TryOr2 callback fallbackA fallbackB s =
     (case callback s of
        (Return (a, b, err), s') \<Rightarrow>
          if err = None then (Return (a, b, True), s')
          else (Return (fallbackA, fallbackB, False), s')
      | (Panic p, s') \<Rightarrow> (Return (fallbackA, fallbackB, False), s'))"
  by (simp add: TryOr2_def Try0_cases split: prod.splits outcome.splits)

lemma TryOr3_cases:
  "TryOr3 callback fallbackA fallbackB fallbackC s =
     (case callback s of
        (Return (a, b, c, err), s') \<Rightarrow>
          if err = None then (Return (a, b, c, True), s')
          else (Return (fallbackA, fallbackB, fallbackC, False), s')
      | (Panic p, s') \<Rightarrow> (Return (fallbackA, fallbackB, fallbackC, False), s'))"
  by (simp add: TryOr3_def Try0_cases split: prod.splits outcome.splits)

lemma TryOr4_cases:
  "TryOr4 callback fallbackA fallbackB fallbackC fallbackD s =
     (case callback s of
        (Return (a, b, c, d, err), s') \<Rightarrow>
          if err = None then (Return (a, b, c, d, True), s')
          else (Return (fallbackA, fallbackB, fallbackC, fallbackD, False), s')
      | (Panic p, s') \<Rightarrow> (Return (fallbackA, fallbackB, fallbackC, fallbackD, False), s'))"
  by (simp add: TryOr4_def Try0_cases split: prod.splits outcome.splits)

lemma TryOr5_cases:
  "TryOr5 callback fallbackA fallbackB fallbackC fallbackD fallbackE s =
     (case callback s of
        (Return (a, b, c, d, e, err), s') \<Rightarrow>
          if err = None then (Return (a, b, c, d, e, True), s')
          else (Return (fallbackA, fallbackB, fallbackC, fallbackD, fallbackE, False), s')
      | (Panic p, s') \<Rightarrow> (Return (fallbackA, fallbackB, fallbackC, fallbackD, fallbackE, False), s'))"
  by (simp add: TryOr5_def Try0_cases split: prod.splits outcome.splits)

lemma TryOr6_cases:
  "TryOr6 callback fallbackA fallbackB fallbackC fallbackD fallbackE fallbackF s =
     (case callback s of
        (Return (a, b, c, d, e, f, err), s') \<Rightarrow>
          if err = None then (Return (a, b, c, d, e, f, True), s')
          else (Return (fallbackA, fallbackB, fallbackC, fallbackD, fallbackE, fallbackF, False), s')
      | (Panic p, s') \<Rightarrow> (Return (fallbackA, fallbackB, fallbackC, fallbackD, fallbackE, fallbackF, False), s'))"
  by (simp add: TryOr6_def Try0_cases split: prod.splits outcome.splits)

text \<open>
  Claim C5. For every arity 1 to 6, \<^verbatim>\<open>TryOrN\<close> returns the callback's values with \<open>True\<close>
  when the callback returns a nil error, and the fallback values it was given, unchanged,
  with \<open>False\<close> when the callback returns a non-nil error or panics (whatever the
  payload: the panic is intercepted and never reaches the caller). The state is the one
  the callback left. \<^verbatim>\<open>TryOr\<close> is \<^verbatim>\<open>TryOr1\<close>. The spec's examples are instances:
  \<^verbatim>\<open>tryOr1(() -> (5, nil), 0)\<close> is \<open>(5, True)\<close> and \<^verbatim>\<open>tryOr1(() -> (0, failure), 9)\<close> is
  \<open>(9, False)\<close>.
\<close>

theorem TryOr_results:
  "(TryOr1 callback1 fallbackA s =
     (case callback1 s of
        (Return (a, err), s') \<Rightarrow>
          if err = None then (Return (a, True), s')
          else (Return (fallbackA, False), s')
      | (Panic p, s') \<Rightarrow> (Return (fallbackA, False), s')))
   \<and> (TryOr2 callback2 fallbackA fallbackB s =
     (case callback2 s of
        (Return (a, b, err), s') \<Rightarrow>
          if err = None then (Return (a, b, True), s')
          else (Return (fallbackA, fallbackB, False), s')
      | (Panic p, s') \<Rightarrow> (Return (fallbackA, fallbackB, False), s')))
   \<and> (TryOr3 callback3 fallbackA fallbackB fallbackC s =
     (case callback3 s of
        (Return (a, b, c, err), s') \<Rightarrow>
          if err = None then (Return (a, b, c, True), s')
          else (Return (fallbackA, fallbackB, fallbackC, False), s')
      | (Panic p, s') \<Rightarrow> (Return (fallbackA, fallbackB, fallbackC, False), s')))
   \<and> (TryOr4 callback4 fallbackA fallbackB fallbackC fallbackD s =
     (case callback4 s of
        (Return (a, b, c, d, err), s') \<Rightarrow>
          if err = None then (Return (a, b, c, d, True), s')
          else (Return (fallbackA, fallbackB, fallbackC, fallbackD, False), s')
      | (Panic p, s') \<Rightarrow> (Return (fallbackA, fallbackB, fallbackC, fallbackD, False), s')))
   \<and> (TryOr5 callback5 fallbackA fallbackB fallbackC fallbackD fallbackE s =
     (case callback5 s of
        (Return (a, b, c, d, e, err), s') \<Rightarrow>
          if err = None then (Return (a, b, c, d, e, True), s')
          else (Return (fallbackA, fallbackB, fallbackC, fallbackD, fallbackE, False), s')
      | (Panic p, s') \<Rightarrow> (Return (fallbackA, fallbackB, fallbackC, fallbackD, fallbackE, False), s')))
   \<and> (TryOr6 callback6 fallbackA fallbackB fallbackC fallbackD fallbackE fallbackF s =
     (case callback6 s of
        (Return (a, b, c, d, e, f, err), s') \<Rightarrow>
          if err = None then (Return (a, b, c, d, e, f, True), s')
          else (Return (fallbackA, fallbackB, fallbackC, fallbackD, fallbackE, fallbackF, False), s')
      | (Panic p, s') \<Rightarrow> (Return (fallbackA, fallbackB, fallbackC, fallbackD, fallbackE, fallbackF, False), s')))
   \<and> TryOr callback1 fallbackA s = TryOr1 callback1 fallbackA s
   \<and> TryOr1 (go_return (5 :: int, None)) 0 () = (Return (5, True), ())
   \<and> TryOr1 (go_return (0 :: int, Some someFailure)) 9 () = (Return (9, False), ())
   \<and> TryOr1 (go_panic (VString ''oops'')) (9 :: int) () = (Return (9, False), ())"
  by (intro conjI TryOr1_cases TryOr2_cases TryOr3_cases TryOr4_cases TryOr5_cases
      TryOr6_cases) (simp_all add: TryOr_def TryOr1_cases go_return_def go_panic_def)

section \<open>Nested boundaries (C6)\<close>

text \<open>
  Claim C6. Each \<^verbatim>\<open>Try\<close> catches only what is raised inside its own callback. For the
  spec's example, the callback \<open>nested_try\<close> runs \<^verbatim>\<open>Try(() -> someFailure)\<close> and then
  \<^verbatim>\<open>must(false)\<close>: the inner \<^verbatim>\<open>Try\<close> returns \<open>False\<close>, the \<^verbatim>\<open>must(false)\<close> that follows
  still panics with \<open>''not ok''\<close>, and the outer \<^verbatim>\<open>Try\<close> catches that panic and returns
  \<open>False\<close>. In general, for every inner callback: the inner \<^verbatim>\<open>Try\<close> returns normally, so
  the code after it runs and its panics are its own; a \<^verbatim>\<open>must(false, ...)\<close> that fails
  after the inner \<^verbatim>\<open>Try\<close> has returned is caught by the outer one; and a panic the inner \<^verbatim>\<open>Try\<close> has
  handled is not seen by the outer one, which returns \<open>True\<close> when nothing else fails.
\<close>

theorem Try_boundaries_nest:
  "Try returns_failure () = (Return False, ())
   \<and> nested_try () = (Panic (VString ''not ok''), ())
   \<and> Try nested_try () = (Return False, ())
   \<and> (\<exists>ok. Try inner s = (Return ok, snd (inner s))
          \<and> go_bind (Try inner) rest s = rest ok (snd (inner s)))
   \<and> Try (go_bind (Try inner) (\<lambda>_.
           go_bind (must LoPanic_default sprintf (VBool False) messageArgs)
             (\<lambda>_. go_return None))) s =
         (Return False, snd (inner s))
   \<and> Try (go_bind (Try inner) (\<lambda>_. go_return None)) s = (Return True, snd (inner s))"
proof -
  have inner_false: "Try returns_failure () = (Return False, ())"
    by (simp add: Try_cases returns_failure_def go_return_def)
  have must_false: "must LoPanic_default Sprintf (VBool False) [] () =
      (Panic (VString ''not ok''), ())"
    by (simp add: must_def go_bind_def go_lift_def messageFromMsgAndArgs_def
        LoPanic_default_def go_panic_def)
  have body: "nested_try () = (Panic (VString ''not ok''), ())"
    by (simp add: nested_try_def go_bind_def inner_false must_false)
  have outer: "Try nested_try () = (Return False, ())"
    by (simp add: Try_cases body)
  have "\<exists>ok. Try inner s = (Return ok, snd (inner s))"
    by (simp add: Try_cases split: prod.splits outcome.splits)
  then obtain ok where ok: "Try inner s = (Return ok, snd (inner s))" ..
  then have sequel: "go_bind (Try inner) rest s = rest ok (snd (inner s))"
    by (simp add: go_bind_def)
  obtain p where "p \<noteq> VNil"
    and "must LoPanic_default sprintf (VBool False) messageArgs (snd (inner s)) =
      (Panic p, snd (inner s))"
    using must_default_aborts [of "VBool False" sprintf messageArgs "snd (inner s)"] by auto
  then have later: "Try (go_bind (Try inner) (\<lambda>_.
           go_bind (must LoPanic_default sprintf (VBool False) messageArgs)
             (\<lambda>_. go_return None))) s =
         (Return False, snd (inner s))"
    by (simp add: Try_cases [of "go_bind (Try inner) (\<lambda>_.
           go_bind (must LoPanic_default sprintf (VBool False) messageArgs)
             (\<lambda>_. go_return None))"] go_bind_def ok)
  have handled: "Try (go_bind (Try inner) (\<lambda>_. go_return None)) s =
      (Return True, snd (inner s))"
    by (simp add: Try_cases [of "go_bind (Try inner) (\<lambda>_. go_return None)"]
        go_bind_def ok go_return_def)
  from ok sequel have "\<exists>ok. Try inner s = (Return ok, snd (inner s))
          \<and> go_bind (Try inner) rest s = rest ok (snd (inner s))"
    by blast
  with inner_false body outer later handled show ?thesis by (intro conjI)
qed

section \<open>The message composer (C7)\<close>

text \<open>
  Claim C7. \<^verbatim>\<open>messageFromMsgAndArgs\<close> maps no argument to the empty string; one argument
  to itself when it is a string and to the formatter's \<^verbatim>\<open>%+v\<close> rendering of it otherwise;
  two or more arguments, the first a string, to the formatter applied to that string as
  template and to the remaining arguments; and with two or more arguments whose first
  is not a string it panics with the runtime's failed type assertion instead of
  rendering anything. With \<^verbatim>\<open>fmt.Sprintf\<close> as modelled on its fragment, the arguments
  \<^verbatim>\<open>"a=%d, b=%s", 3, "x"\<close> compose to \<open>''a=3, b=x''\<close> and \<^verbatim>\<open>"plain"\<close> to \<open>''plain''\<close>.
\<close>

theorem messageFromMsgAndArgs_composes:
  "messageFromMsgAndArgs sprintf [] = Return []
   \<and> messageFromMsgAndArgs sprintf [VString str] = Return str
   \<and> ((\<forall>str. v \<noteq> VString str) \<longrightarrow>
         messageFromMsgAndArgs sprintf [v] = Return (sprintf ''%+v'' [v]))
   \<and> messageFromMsgAndArgs sprintf (VString template # arg # args) =
         Return (sprintf template (arg # args))
   \<and> ((\<forall>str. v \<noteq> VString str) \<longrightarrow>
         messageFromMsgAndArgs sprintf (v # arg # args) = Panic (TypeAssertionError v))
   \<and> messageFromMsgAndArgs Sprintf [VString ''a=%d, b=%s'', VInt 3, VString ''x''] =
         Return ''a=3, b=x''
   \<and> messageFromMsgAndArgs Sprintf [VString ''plain''] = Return ''plain''"
proof -
  have none: "messageFromMsgAndArgs sprintf [] = Return []"
    by (simp add: messageFromMsgAndArgs_def)
  have one_string: "messageFromMsgAndArgs sprintf [VString str] = Return str"
    for sprintf str
    by (simp add: messageFromMsgAndArgs_def)
  have one_other: "(\<forall>str. v \<noteq> VString str) \<longrightarrow>
      messageFromMsgAndArgs sprintf [v] = Return (sprintf ''%+v'' [v])"
    by (cases v) (simp_all add: messageFromMsgAndArgs_def)
  have template: "messageFromMsgAndArgs sprintf (VString template # arg # args) =
      Return (sprintf template (arg # args))" for sprintf template arg args
    by (simp add: messageFromMsgAndArgs_def)
  have strict: "(\<forall>str. v \<noteq> VString str) \<longrightarrow>
      messageFromMsgAndArgs sprintf (v # arg # args) = Panic (TypeAssertionError v)"
    by (cases v) (simp_all add: messageFromMsgAndArgs_def)
  have rendered: "Sprintf ''a=%d, b=%s'' [VInt 3, VString ''x''] = ''a=3, b=x''"
    by (simp add: Sprintf_def format_verb_def append_option_def show_int_def digit_char_def)
  have example: "messageFromMsgAndArgs Sprintf [VString ''a=%d, b=%s'', VInt 3, VString ''x''] =
      Return ''a=3, b=x''"
    by (simp only: template rendered)
  from none one_string [of sprintf str] one_other template [of sprintf template arg args]
    strict example one_string [of Sprintf "''plain''"]
  show ?thesis by (intro conjI)
qed

text \<open>
  Instances with a first argument that is not a string: alone, the int \<open>42\<close> is rendered
  by the formatter; followed by another argument, it makes the composer panic.
\<close>

theorem messageFromMsgAndArgs_composes_witness:
  "messageFromMsgAndArgs Sprintf [VInt 42] = Return ''42''
   \<and> messageFromMsgAndArgs Sprintf [VInt 42, VString ''x''] =
       Panic (VError (OtherError (Unnamed ''*runtime.TypeAssertionError'')
         ''interface conversion: interface {} is int, not string''))"
proof -
  have not_string: "\<forall>str. VInt 42 \<noteq> VString str" by simp
  have rendered: "Sprintf ''%+v'' [VInt 42] = ''42''"
    by (simp add: Sprintf_def append_option_def show_int_def digit_char_def)
  from messageFromMsgAndArgs_composes [where sprintf = Sprintf and v = "VInt 42"
      and arg = "VString ''x''" and args = "[]" and str = "[]" and template = "[]"]
    not_string rendered
  show ?thesis by (simp add: TypeAssertionError_def)
qed

section \<open>An indicator of the wrong type (C8)\<close>

text \<open>
  Claim C8, as amended. For a non-nil indicator that is neither a \<^verbatim>\<open>bool\<close> nor an error,
  \<^verbatim>\<open>must\<close> calls the hook with the string
  \<^verbatim>\<open>must: invalid err type 'T', should either be a bool or an error\<close>, where \<open>T\<close> is what
  \<^verbatim>\<open>reflect.TypeOf(err).Name()\<close> returns for the indicator's dynamic type; the message
  arguments play no part. Under the default hook this is an ordinary panic with a string
  payload: an enclosing \<^verbatim>\<open>Try\<close> intercepts it and returns \<open>False\<close>, as for any other
  failure of the Must family. The same holds for \<^verbatim>\<open>Must\<close> and \<^verbatim>\<open>Must0\<close> to \<^verbatim>\<open>Must6\<close>, which
  call the hook with that diagnostic and return their values only if the hook returns.
  (\<^verbatim>\<open>mustE\<close> and \<^verbatim>\<open>MustE0\<close> to \<^verbatim>\<open>MustE6\<close> take an \<^verbatim>\<open>error\<close>: their indicator cannot be
  of a wrong type.)
\<close>

theorem must_invalid_type_diagnostic:
  assumes "dyn_type indicator = Some t"
    and "\<forall>b. indicator \<noteq> VBool b"
    and "\<forall>e. indicator \<noteq> VError e"
    and "diagnostic = VString (''must: invalid err type '' @ quote @ type_Name t @ quote @
           '', should either be a bool or an error'')"
  shows "must LoPanic sprintf indicator messageArgs s = LoPanic diagnostic s
    \<and> must LoPanic_default sprintf indicator messageArgs s = (Panic diagnostic, s)
    \<and> Try (go_bind (must LoPanic_default sprintf indicator messageArgs)
          (\<lambda>_. go_return None)) s = (Return False, s)
    \<and> TryWithErrorValue (go_bind (must LoPanic_default sprintf indicator messageArgs)
          (\<lambda>_. go_return None)) s = (Return (diagnostic, False), s)
    \<and> Must0 LoPanic sprintf indicator messageArgs s = LoPanic diagnostic s
    \<and> Must LoPanic sprintf va indicator messageArgs s =
          go_bind (LoPanic diagnostic) (\<lambda>_. go_return va) s
    \<and> Must1 LoPanic sprintf va indicator messageArgs s =
          go_bind (LoPanic diagnostic) (\<lambda>_. go_return va) s
    \<and> Must2 LoPanic sprintf va vb indicator messageArgs s =
          go_bind (LoPanic diagnostic) (\<lambda>_. go_return (va, vb)) s
    \<and> Must3 LoPanic sprintf va vb vc indicator messageArgs s =
          go_bind (LoPanic diagnostic) (\<lambda>_. go_return (va, vb, vc)) s
    \<and> Must4 LoPanic sprintf va vb vc vd indicator messageArgs s =
          go_bind (LoPanic diagnostic) (\<lambda>_. go_return (va, vb, vc, vd)) s
    \<and> Must5 LoPanic sprintf va vb vc vd ve indicator messageArgs s =
          go_bind (LoPanic diagnostic) (\<lambda>_. go_return (va, vb, vc, vd, ve)) s
    \<and> Must6 LoPanic sprintf va vb vc vd ve vf indicator messageArgs s =
          go_bind (LoPanic diagnostic) (\<lambda>_. go_return (va, vb, vc, vd, ve, vf)) s
    \<and> Try (go_bind (Must0 LoPanic_default sprintf indicator messageArgs)
          (\<lambda>_. go_return None)) s = (Return False, s)
    \<and> Try (go_bind (Must LoPanic_default sprintf va indicator messageArgs)
          (\<lambda>_. go_return None)) s = (Return False, s)
    \<and> Try (go_bind (Must1 LoPanic_default sprintf va indicator messageArgs)
          (\<lambda>_. go_return None)) s = (Return False, s)
    \<and> Try (go_bind (Must2 LoPanic_default sprintf va vb indicator messageArgs)
          (\<lambda>_. go_return None)) s = (Return False, s)
    \<and> Try (go_bind (Must3 LoPanic_default sprintf va vb vc indicator messageArgs)
          (\<lambda>_. go_return None)) s = (Return False, s)
    \<and> Try (go_bind (Must4 LoPanic_default sprintf va vb vc vd indicator messageArgs)
          (\<lambda>_. go_return None)) s = (Return False, s)
    \<and> Try (go_bind (Must5 LoPanic_default sprintf va vb vc vd ve indicator messageArgs)
          (\<lambda>_. go_return None)) s = (Return False, s)
    \<and> Try (go_bind (Must6 LoPanic_default sprintf va vb vc vd ve vf indicator messageArgs)
          (\<lambda>_. go_return None)) s = (Return False, s)"
proof -
  have hook: "must LoPanic sprintf indicator messageArgs s = LoPanic diagnostic s" for LoPanic
    unfolding assms(4) by (rule must_on_other [OF assms(1-3)])
  have default: "must LoPanic_default sprintf indicator messageArgs s = (Panic diagnostic, s)"
    by (simp add: hook LoPanic_default_def go_panic_def)
  have payload: "diagnostic \<noteq> VNil"
    by (simp add: assms(4))
  have caught: "Try (go_bind (must LoPanic_default sprintf indicator messageArgs)
          (\<lambda>_. go_return None)) s = (Return False, s)"
    by (simp add: Try_cases go_bind_def default payload)
  have reported: "TryWithErrorValue (go_bind (must LoPanic_default sprintf indicator messageArgs)
          (\<lambda>_. go_return None)) s = (Return (diagnostic, False), s)"
    by (simp add: TryWithErrorValue_cases go_bind_def default payload)
  have hook_Must0: "Must0 LoPanic sprintf indicator messageArgs s = LoPanic diagnostic s"
    unfolding Must0_def by (simp add: go_bind_def hook)
  have hook_Must: "Must LoPanic sprintf va indicator messageArgs s =
          go_bind (LoPanic diagnostic) (\<lambda>_. go_return va) s"
    unfolding Must_def by (simp add: go_bind_def hook)
  have hook_Must1: "Must1 LoPanic sprintf va indicator messageArgs s =
          go_bind (LoPanic diagnostic) (\<lambda>_. go_return va) s"
    unfolding Must1_def Must_def by (simp add: go_bind_def hook)
  have hook_Must2: "Must2 LoPanic sprintf va vb indicator messageArgs s =
          go_bind (LoPanic diagnostic) (\<lambda>_. go_return (va, vb)) s"
    unfolding Must2_def by (simp add: go_bind_def hook)
  have hook_Must3: "Must3 LoPanic sprintf va vb vc indicator messageArgs s =
          go_bind (LoPanic diagnostic) (\<lambda>_. go_return (va, vb, vc)) s"
    unfolding Must3_def by (simp add: go_bind_def hook)
  have hook_Must4: "Must4 LoPanic sprintf va vb vc vd indicator messageArgs s =
          go_bind (LoPanic diagnostic) (\<lambda>_. go_return (va, vb, vc, vd)) s"
    unfolding Must4_def by (simp add: go_bind_def hook)
  have hook_Must5: "Must5 LoPanic sprintf va vb vc vd ve indicator messageArgs s =
          go_bind (LoPanic diagnostic) (\<lambda>_. go_return (va, vb, vc, vd, ve)) s"
    unfolding Must5_def by (simp add: go_bind_def hook)
  have hook_Must6: "Must6 LoPanic sprintf va vb vc vd ve vf indicator messageArgs s =
          go_bind (LoPanic diagnostic) (\<lambda>_. go_return (va, vb, vc, vd, ve, vf)) s"
    unfolding Must6_def by (simp add: go_bind_def hook)
  have caught_Must0: "Try (go_bind (Must0 LoPanic_default sprintf indicator messageArgs)
          (\<lambda>_. go_return None)) s = (Return False, s)"
    unfolding Must0_def by (simp add: Try_cases go_bind_def default payload)
  have caught_Must: "Try (go_bind (Must LoPanic_default sprintf va indicator messageArgs)
          (\<lambda>_. go_return None)) s = (Return False, s)"
    unfolding Must_def by (simp add: Try_cases go_bind_def default payload)
  have caught_Must1: "Try (go_bind (Must1 LoPanic_default sprintf va indicator messageArgs)
          (\<lambda>_. go_return None)) s = (Return False, s)"
    unfolding Must1_def Must_def by (simp add: Try_cases go_bind_def default payload)
  have caught_Must2: "Try (go_bind (Must2 LoPanic_default sprintf va vb indicator messageArgs)
          (\<lambda>_. go_return None)) s = (Return False, s)"
    unfolding Must2_def by (simp add: Try_cases go_bind_def default payload)
  have caught_Must3: "Try (go_bind (Must3 LoPanic_default sprintf va vb vc indicator messageArgs)
          (\<lambda>_. go_return None)) s = (Return False, s)"
    unfolding Must3_def by (simp add: Try_cases go_bind_def default payload)
  have caught_Must4: "Try (go_bind (Must4 LoPanic_default sprintf va vb vc vd indicator messageArgs)
          (\<lambda>_. go_return None)) s = (Return False, s)"
    unfolding Must4_def by (simp add: Try_cases go_bind_def default payload)
  have caught_Must5: "Try (go_bind (Must5 LoPanic_default sprintf va vb vc vd ve indicator messageArgs)
          (\<lambda>_. go_return None)) s = (Return False, s)"
    unfolding Must5_def by (simp add: Try_cases go_bind_def default payload)
  have caught_Must6: "Try (go_bind (Must6 LoPanic_default sprintf va vb vc vd ve vf indicator messageArgs)
          (\<lambda>_. go_return None)) s = (Return False, s)"
    unfolding Must6_def by (simp add: Try_cases go_bind_def default payload)
  from hook default caught reported
    hook_Must0 hook_Must hook_Must1 hook_Must2 hook_Must3 hook_Must4 hook_Must5 hook_Must6
    caught_Must0 caught_Must caught_Must1 caught_Must2 caught_Must3 caught_Must4 caught_Must5 caught_Must6
  show ?thesis by (intro conjI)
qed

text \<open>
  Instances: \<^verbatim>\<open>must(3)\<close> names \<^verbatim>\<open>int\<close>; for a slice, whose type has no name, the
  diagnostic carries the empty name.
\<close>

theorem must_invalid_type_diagnostic_witness:
  "must recording_hook Sprintf (VInt 3) [] [] =
     (Panic (VString (''must: invalid err type '' @ quote @ ''int'' @ quote @
        '', should either be a bool or an error'')),
      [VString (''must: invalid err type '' @ quote @ ''int'' @ quote @
        '', should either be a bool or an error'')])
   \<and> must LoPanic_default Sprintf (VOther (Unnamed ''[]int'')) [] () =
     (Panic (VString (''must: invalid err type '' @ quote @ quote @
        '', should either be a bool or an error'')), ())"
proof -
  have int_type: "dyn_type (VInt 3) = Some (Named [] ''int'')" by simp
  have not_bool: "\<forall>b. VInt 3 \<noteq> VBool b" by simp
  have not_error: "\<forall>e. VInt 3 \<noteq> VError e" by simp
  have a: "must recording_hook Sprintf (VInt 3) [] [] =
     (Panic (VString (''must: invalid err type '' @ quote @ ''int'' @ quote @
        '', should either be a bool or an error'')),
      [VString (''must: invalid err type '' @ quote @ ''int'' @ quote @
        '', should either be a bool or an error'')])"
    using must_invalid_type_diagnostic [OF int_type not_bool not_error refl,
        where LoPanic = recording_hook and sprintf = Sprintf and messageArgs = "[]" and s = "[]"
          and va = "()" and vb = "()" and vc = "()" and vd = "()" and ve = "()" and vf = "()",
        THEN conjunct1]
    by (simp add: recording_hook_def)
  have slice_type: "dyn_type (VOther (Unnamed ''[]int'')) = Some (Unnamed ''[]int'')" by simp
  have not_bool': "\<forall>b. VOther (Unnamed ''[]int'') \<noteq> VBool b" by simp
  have not_error': "\<forall>e. VOther (Unnamed ''[]int'') \<noteq> VError e" by simp
  have b: "must LoPanic_default Sprintf (VOther (Unnamed ''[]int'')) [] () =
     (Panic (VString (''must: invalid err type '' @ quote @ quote @
        '', should either be a bool or an error'')), ())"
    using must_invalid_type_diagnostic [OF slice_type not_bool' not_error' refl,
        where LoPanic = LoPanic_default and sprintf = Sprintf and messageArgs = "[]"
          and s = "()" and va = "()" and vb = "()" and vc = "()" and vd = "()" and ve = "()"
          and vf = "()", THEN conjunct2, THEN conjunct1]
    by simp
  from a b show ?thesis by (intro conjI)
qed

text \<open>
  Claim C8 as stated fails in its second half: the abort of \<^verbatim>\<open>must(3)\<close> is recovered by
  an enclosing \<^verbatim>\<open>Try\<close>, which returns \<open>False\<close> to its caller.
\<close>

theorem must_invalid_type_recovered_counterexample:
  "calls_must (VInt 3) [] () =
     (Panic (VString (''must: invalid err type '' @ quote @ ''int'' @ quote @
        '', should either be a bool or an error'')), ())
   \<and> Try (calls_must (VInt 3) []) () = (Return False, ())"
  by (simp add: Try_cases calls_must_def must_def go_bind_def go_lift_def
      LoPanic_default_def go_panic_def)

section \<open>The display of a wrapper (C9)\<close>

text \<open>
  Claim C9. A wrapper with base \<open>B\<close> and attachment \<open>A\<close> displays as the display of \<open>B\<close>
  when \<open>A\<close> is empty, and as \<open>A\<close>, \<open>'': ''\<close> and the display of \<open>B\<close> otherwise. This holds
  for the \<^verbatim>\<open>Error\<close> method, for \<^verbatim>\<open>String\<close>, and for the wrapper seen as an \<^verbatim>\<open>error\<close>; so
  a wrapper around a wrapper displays both attachments, outermost first.
\<close>

theorem wrapErrPrefixMsg_display:
  "wrapErrPrefixMsg_Error (WrapErrPrefixMsg B A) =
     (if A = [] then Error B else A @ '': '' @ Error B)
   \<and> wrapErrPrefixMsg_String (WrapErrPrefixMsg B A) =
     (if A = [] then Error B else A @ '': '' @ Error B)
   \<and> Error (EWrap (WrapErrPrefixMsg B A)) =
     (if A = [] then Error B else A @ '': '' @ Error B)
   \<and> wrapErrPrefixMsg_Error (WrapErrPrefixMsg B []) = Error B
   \<and> wrapErrPrefixMsg_Error (WrapErrPrefixMsg B (c # cs)) = (c # cs) @ '': '' @ Error B
   \<and> wrapErrPrefixMsg_Error
         (WrapErrPrefixMsg (EWrap (WrapErrPrefixMsg someFailure ''inner'')) ''outer'') =
       ''outer: inner: boom''"
  by (simp add: wrapErrPrefixMsg_String_def someFailure_def)

section \<open>Any payload is intercepted (C10)\<close>

text \<open>
  Claim C10. Whatever a callback panics with, provided the payload is not nil, \<^verbatim>\<open>Try\<close>
  and each of \<^verbatim>\<open>Try0\<close> to \<^verbatim>\<open>Try6\<close> return \<open>False\<close> and \<^verbatim>\<open>TryWithErrorValue\<close> returns that
  very payload with \<open>False\<close>; the payload need not come from the hook or from the Must
  family. When the callback returns a non-nil error instead, \<^verbatim>\<open>TryWithErrorValue\<close>
  returns that error with \<open>False\<close>, and \<^verbatim>\<open>Try\<close> and \<^verbatim>\<open>Try2\<close> to \<^verbatim>\<open>Try6\<close> return \<open>False\<close>. In both cases the call returns normally, in the state
  the callback left.
\<close>

theorem Try_intercepts_any_payload:
  "(callback s = (Panic p, s') \<and> p \<noteq> VNil \<longrightarrow>
      Try callback s = (Return False, s')
      \<and> Try1 callback s = (Return False, s')
      \<and> TryWithErrorValue callback s = (Return (p, False), s'))
   \<and> (callback0 s = (Panic p, s') \<and> p \<noteq> VNil \<longrightarrow>
      Try0 callback0 s = (Return False, s'))
   \<and> (callback s = (Return (Some e), s') \<longrightarrow>
      Try callback s = (Return False, s')
      \<and> TryWithErrorValue callback s = (Return (VError e, False), s'))
   \<and> (callback2 s = (Panic p, s') \<and> p \<noteq> VNil \<longrightarrow>
      Try2 callback2 s = (Return False, s'))
   \<and> (callback2 s = (Return (xa, Some e), s') \<longrightarrow>
      Try2 callback2 s = (Return False, s'))
   \<and> (callback3 s = (Panic p, s') \<and> p \<noteq> VNil \<longrightarrow>
      Try3 callback3 s = (Return False, s'))
   \<and> (callback3 s = (Return (xa, xb, Some e), s') \<longrightarrow>
      Try3 callback3 s = (Return False, s'))
   \<and> (callback4 s = (Panic p, s') \<and> p \<noteq> VNil \<longrightarrow>
      Try4 callback4 s = (Return False, s'))
   \<and> (callback4 s = (Return (xa, xb, xc, Some e), s') \<longrightarrow>
      Try4 callback4 s = (Return False, s'))
   \<and> (callback5 s = (Panic p, s') \<and> p \<noteq> VNil \<longrightarrow>
      Try5 callback5 s = (Return False, s'))
   \<and> (callback5 s = (Return (xa, xb, xc, xd, Some e), s') \<longrightarrow>
      Try5 callback5 s = (Return False, s'))
   \<and> (callback6 s = (Panic p, s') \<and> p \<noteq> VNil \<longrightarrow>
      Try6 callback6 s = (Return False, s'))
   \<and> (callback6 s = (Return (xa, xb, xc, xd, xe, Some e), s') \<longrightarrow>
      Try6 callback6 s = (Return False, s'))"
  by (simp add: Try_cases Try0_cases Try1_def TryWithErrorValue_cases Try2_def Try3_def
      Try4_def Try5_def Try6_def go_bind_def go_return_def)

text \<open>
  Instances: a callback that panics with the plain string \<open>''oops''\<close>, and one that
  returns the failure \<open>someFailure\<close>.
\<close>

theorem Try_intercepts_any_payload_witness:
  "Try panics_with_string () = (Return False, ())
   \<and> TryWithErrorValue panics_with_string () = (Return (VString ''oops'', False), ())
   \<and> TryWithErrorValue returns_failure () = (Return (VError someFailure, False), ())"
proof -
  have panics: "panics_with_string () = (Panic (VString ''oops''), ())"
    by (simp add: panics_with_string_def go_panic_def)
  have payload: "VString ''oops'' \<noteq> VNil" by simp
  have returns: "returns_failure () = (Return (Some someFailure), ())"
    by (simp add: returns_failure_def go_return_def)
  from Try_intercepts_any_payload [where callback = panics_with_string and s = "()"
      and s' = "()" and p = "VString ''oops''" and ?callback0.0 = "go_return ()"
      and e = someFailure and ?callback2.0 = "go_panic (VString ''oops'')"
      and ?callback3.0 = "go_panic (VString ''oops'')"
      and ?callback4.0 = "go_panic (VString ''oops'')"
      and ?callback5.0 = "go_panic (VString ''oops'')"
      and ?callback6.0 = "go_panic (VString ''oops'')"
      and xa = "()" and xb = "()" and xc = "()" and xd = "()" and xe = "()"] panics payload
  have a: "Try panics_with_string () = (Return False, ())
      \<and> TryWithErrorValue panics_with_string () = (Return (VString ''oops'', False), ())"
    by simp
  from Try_intercepts_any_payload [where callback = returns_failure and s = "()"
      and s' = "()" and p = "VString ''oops''" and ?callback0.0 = "go_return ()"
      and e = someFailure and ?callback2.0 = "go_panic (VString ''oops'')"
      and ?callback3.0 = "go_panic (VString ''oops'')"
      and ?callback4.0 = "go_panic (VString ''oops'')"
      and ?callback5.0 = "go_panic (VString ''oops'')"
      and ?callback6.0 = "go_panic (VString ''oops'')"
      and xa = "()" and xb = "()" and xc = "()" and xd = "()" and xe = "()"] returns
  have b: "TryWithErrorValue returns_failure () = (Return (VError someFailure, False), ())"
    by simp
  from a b show ?thesis by simp
qed

end
